theory Spec2Isabelle
  imports Main "HOL-Library.Char_ord" "HOL-Library.List_Lexorder"
begin

section \<open>The to-do entry of ics.py (src/ics/todo.py)\<close>

text \<open>
  The theory embeds the class \<open>Todo\<close> of \<^verbatim>\<open>src/ics/todo.py\<close>: its constructor, the
  properties \<open>begin\<close>, \<open>due\<close> and \<open>duration\<close>, the two window tests, the four ordering
  operators, the extractors registered with \<open>Todo._extracts\<close> and the producers registered
  with \<open>Todo._outputs\<close>.

  Conventions of the embedding.
  \<^item> The language is Python 3: comparing \<open>None\<close> with anything by \<open><\<close>, \<open>\<le>\<close>, \<open>>\<close>, \<open>\<ge>\<close>
    raises \<open>TypeError\<close>, and so does arithmetic on \<open>None\<close>. The comment in \<open>__gt__\<close> of the
    source names Python 3 as a target of the code.
  \<^item> An \<open>Arrow\<close> instant is an integer (a count of microseconds on the time line) and a
    \<open>timedelta\<close> is an integer (a count of microseconds). The range limits of the two
    library types are outside the model. An \<open>Arrow\<close> object is always true in a
    condition; a \<open>timedelta\<close> is true iff it is not zero.
  \<^item> Every \<open>raise\<close> of the source and every exception of the interpreter is a value
    \<open>Inl e\<close> of the result type \<open>error + 'a\<close>; a method that mutates \<open>self\<close> returns the
    new object.
  \<^item> The private attributes \<open>_begin\<close>, \<open>_due_time\<close>, \<open>_duration\<close> and \<open>_unused\<close> are the
    record fields \<open>priv_begin\<close>, \<open>priv_due_time\<close>, \<open>priv_duration\<close> and \<open>unused\<close>. A property
    \<open>p\<close> is the pair \<open>get_p\<close>, \<open>set_p\<close>; the extractor named \<open>f\<close> in the source is
    \<open>f_extractor\<close>; \<open>__init__\<close> is \<open>todo_init\<close> and \<open>__lt__\<close> is \<open>todo_lt\<close>.
\<close>

subsection \<open>Values, errors and the collaborators outside the file\<close>

type_synonym arrow = int
type_synonym timedelta = int

datatype error =
    ValueError string
  | TypeError
  | AttributeError
  | NotImplementedError
  | MissingProperty string
  | MalformedProperty string

definition ebind :: "error + 'a \<Rightarrow> ('a \<Rightarrow> error + 'b) \<Rightarrow> error + 'b" where
  "ebind m f = (case m of Inl e \<Rightarrow> Inl e | Inr x \<Rightarrow> f x)"

text \<open>A value held by a property line or by the \<open>uid\<close> attribute: a string or an integer.\<close>

datatype pyval = StrVal string | IntVal int

fun truthy_val :: "pyval \<Rightarrow> bool" where
  "truthy_val (StrVal s) = (s \<noteq> [])"
| "truthy_val (IntVal n) = (n \<noteq> 0)"

text \<open>
  An item of a container (\<open>ics.parse\<close>): a property line \<open>(name, params, value)\<close>, a nested
  container, or a rendered string (what \<open>o_alarm\<close> appends).
\<close>

datatype item =
    ContentLine string "(string \<times> string list) list" pyval
  | Container string "item list"
  | Rendered string

type_synonym container = "item list"

fun item_name :: "item \<Rightarrow> string option" where
  "item_name (ContentLine n ps v) = Some n"
| "item_name (Container n xs) = Some n"
| "item_name (Rendered s) = None"

text \<open>\<open>line.value\<close>: an attribute of a property line; \<open>None.value\<close> and the like raise.\<close>

fun line_value :: "item option \<Rightarrow> error + pyval" where
  "line_value None = Inl AttributeError"
| "line_value (Some (ContentLine n ps v)) = Inr v"
| "line_value (Some (Container n xs)) = Inl AttributeError"
| "line_value (Some (Rendered s)) = Inl AttributeError"

typedecl alarm

text \<open>
  The functions imported from \<open>ics.utils\<close>, \<open>ics.alarm\<close> and \<open>arrow\<close> are parameters of the
  model, collected in one record: \<open>uid_gen\<close> and \<open>now\<close> are the values the two calls
  return, \<open>iso_to_arrow\<close> has the time-zone dictionary of the class-method call built in,
  and a codec that reads a line may fail.
\<close>

record env =
  uid_gen :: pyval
  now :: arrow
  iso_to_arrow :: "item \<Rightarrow> error + arrow"
  arrow_to_iso :: "arrow \<Rightarrow> string"
  parse_duration :: "pyval \<Rightarrow> error + timedelta"
  timedelta_to_duration :: "timedelta \<Rightarrow> string"
  unescape_string :: "pyval \<Rightarrow> error + string"
  escape_string :: "string \<Rightarrow> string"
  alarm_from_container :: "item \<Rightarrow> error + alarm"
  alarm_str :: "alarm \<Rightarrow> string"

text \<open>
  A value given where the source expects something "Arrow-compatible": an \<open>Arrow\<close>, or a
  number, which \<open>arrow.get\<close> reads as a timestamp in seconds. In a condition an \<open>Arrow\<close>
  is always true and a number is true iff it is not zero; \<open>None\<close> is false.
\<close>

datatype arrow_arg = ArrowArg arrow | TimestampArg int

fun truthy_arrow_arg :: "arrow_arg option \<Rightarrow> bool" where
  "truthy_arrow_arg None = False"
| "truthy_arrow_arg (Some (ArrowArg a)) = True"
| "truthy_arrow_arg (Some (TimestampArg n)) = (n \<noteq> 0)"

text \<open>
  Modelled from the spec: \<open>get_arrow\<close> of \<open>ics.utils\<close> is not among the sources; it
  "coerces a value to a timestamp or absent". \<open>None\<close> stays \<open>None\<close>, an \<open>Arrow\<close> is
  returned unchanged, and a number of seconds becomes the instant that many seconds
  after the origin of the time line.
\<close>

fun get_arrow :: "arrow_arg option \<Rightarrow> arrow option" where
  "get_arrow None = None"
| "get_arrow (Some (ArrowArg a)) = Some a"
| "get_arrow (Some (TimestampArg n)) = Some (n * 1000000)"

text \<open>Truth of an optional \<open>timedelta\<close> in a condition: \<open>None\<close> and the zero span are false.\<close>

fun truthy_td :: "timedelta option \<Rightarrow> bool" where
  "truthy_td None = False"
| "truthy_td (Some d) = (d \<noteq> 0)"

text \<open>
  An ordering comparison of two optional values in Python 3: defined on two present
  values, \<open>TypeError\<close> when either is \<open>None\<close>.
\<close>

fun py_cmp :: "('a \<Rightarrow> 'a \<Rightarrow> bool) \<Rightarrow> 'a option \<Rightarrow> 'a option \<Rightarrow> error + bool" where
  "py_cmp r (Some a) (Some b) = Inr (r a b)"
| "py_cmp r a b = Inl TypeError"

text \<open>\<open>Arrow + timedelta\<close> and \<open>Arrow - Arrow\<close>, with \<open>None\<close> as a possible operand.\<close>

fun py_add :: "arrow option \<Rightarrow> timedelta \<Rightarrow> error + arrow" where
  "py_add (Some a) d = Inr (a + d)"
| "py_add None d = Inl TypeError"

fun py_sub :: "arrow \<Rightarrow> arrow option \<Rightarrow> error + timedelta" where
  "py_sub a (Some b) = Inr (a - b)"
| "py_sub a None = Inl TypeError"

subsection \<open>The argument of the duration setter\<close>

text \<open>
  The setter accepts \<open>None\<close>, a \<open>timedelta\<close>, a dictionary of keyword arguments for
  \<open>timedelta\<close>, or a number that \<open>timedelta(value)\<close> reads as days.
\<close>

datatype duration_arg =
    DurNone
  | DurDelta timedelta
  | DurDict "(string \<times> int) list"
  | DurDays int

fun truthy_arg :: "duration_arg \<Rightarrow> bool" where
  "truthy_arg DurNone = False"
| "truthy_arg (DurDelta d) = (d \<noteq> 0)"
| "truthy_arg (DurDict kv) = (kv \<noteq> [])"
| "truthy_arg (DurDays n) = (n \<noteq> 0)"

definition timedelta_units :: "(string \<times> int) list" where
  "timedelta_units =
     [(''days'', 86400000000), (''seconds'', 1000000), (''microseconds'', 1),
      (''milliseconds'', 1000), (''minutes'', 60000000), (''hours'', 3600000000),
      (''weeks'', 604800000000)]"

text \<open>\<open>timedelta(**kv)\<close>: an unknown keyword is a \<open>TypeError\<close>.\<close>

definition timedelta_kw :: "(string \<times> int) list \<Rightarrow> error + timedelta" where
  "timedelta_kw kv =
     (if list_all (\<lambda>k. k \<in> set (map fst timedelta_units)) (map fst kv)
      then Inr (sum_list (map (\<lambda>(k, w). w * (case map_of kv k of None \<Rightarrow> 0 | Some n \<Rightarrow> n))
                               timedelta_units))
      else Inl TypeError)"

subsection \<open>The class\<close>

record todo =
  uid :: pyval
  completed :: "arrow option"
  created :: "arrow option"
  description :: "string option"
  priv_begin :: "arrow option"
  location :: "string option"
  percent :: "int option"
  priority :: "int option"
  name :: "string option"
  url :: "string option"
  alarms :: "alarm list"
  unused :: container
  priv_due_time :: "arrow option"
  priv_duration :: "timedelta option"

text \<open>
  The arguments of the constructor, each \<open>None\<close> by default, as they are given: the
  constructor tests the truth of \<open>begin\<close>, \<open>due\<close> and \<open>duration\<close> before any coercion.
\<close>

record todo_args =
  arg_uid :: "pyval option"
  arg_completed :: "arrow_arg option"
  arg_created :: "arrow_arg option"
  arg_description :: "string option"
  arg_begin :: "arrow_arg option"
  arg_location :: "string option"
  arg_percent :: "int option"
  arg_priority :: "int option"
  arg_name :: "string option"
  arg_url :: "string option"
  arg_due :: "arrow_arg option"
  arg_duration :: duration_arg
  arg_alarms :: "alarm list option"

definition no_args :: todo_args where
  "no_args = \<lparr> arg_uid = None, arg_completed = None, arg_created = None,
     arg_description = None, arg_begin = None, arg_location = None, arg_percent = None,
     arg_priority = None, arg_name = None, arg_url = None, arg_due = None,
     arg_duration = DurNone, arg_alarms = None \<rparr>"

subsubsection \<open>Property \<open>begin\<close>\<close>

definition get_begin :: "todo \<Rightarrow> arrow option" where
  "get_begin self = priv_begin self"

definition set_begin :: "todo \<Rightarrow> arrow_arg option \<Rightarrow> error + todo" where
  "set_begin self v =
     (let val = get_arrow v in
      case (val, priv_due_time self) of
        (Some b, Some d) \<Rightarrow>
          if b > d then Inl (ValueError ''Begin must be before due time'')
          else Inr (self\<lparr>priv_begin := val\<rparr>)
      | _ \<Rightarrow> Inr (self\<lparr>priv_begin := val\<rparr>))"

subsubsection \<open>Property \<open>due\<close>\<close>

definition get_due :: "todo \<Rightarrow> error + arrow option" where
  "get_due self =
     (case priv_duration self of
        Some d \<Rightarrow>
          if d \<noteq> 0 then ebind (py_add (get_begin self) d) (\<lambda>a. Inr (Some a))
          else Inr (priv_due_time self)
      | None \<Rightarrow> Inr (priv_due_time self))"

definition set_due :: "todo \<Rightarrow> arrow_arg option \<Rightarrow> error + todo" where
  "set_due self v =
     (let val = get_arrow v in
      case val of
        None \<Rightarrow> Inr (self\<lparr>priv_due_time := None\<rparr>)
      | Some d \<Rightarrow>
          ebind (py_cmp (<) (Some d) (priv_begin self)) (\<lambda>before.
            if before then Inl (ValueError ''Due must be after begin'')
            else Inr (self\<lparr>priv_due_time := Some d, priv_duration := None\<rparr>)))"

subsubsection \<open>Property \<open>duration\<close>\<close>

definition get_duration :: "todo \<Rightarrow> error + timedelta option" where
  "get_duration self =
     (if truthy_td (priv_duration self) then Inr (priv_duration self)
      else ebind (get_due self) (\<lambda>due.
        case due of
          Some e \<Rightarrow> ebind (py_sub e (get_begin self)) (\<lambda>d. Inr (Some d))
        | None \<Rightarrow> Inr None))"

text \<open>The coercion at the head of the setter.\<close>

fun coerce_duration :: "duration_arg \<Rightarrow> error + timedelta option" where
  "coerce_duration (DurDict kv) = ebind (timedelta_kw kv) (\<lambda>d. Inr (Some d))"
| "coerce_duration (DurDelta d) = Inr (Some d)"
| "coerce_duration (DurDays n) = Inr (Some (n * 86400000000))"
| "coerce_duration DurNone = Inr None"

definition set_duration :: "todo \<Rightarrow> duration_arg \<Rightarrow> error + todo" where
  "set_duration self v =
     ebind (coerce_duration v) (\<lambda>val.
       if truthy_td val then Inr (self\<lparr>priv_duration := val, priv_due_time := None\<rparr>)
       else Inr (self\<lparr>priv_duration := val\<rparr>))"

subsubsection \<open>The constructor\<close>

text \<open>
  \<open>__init__\<close> in its three phases. Lines 74 to 89: the three private attributes start
  as \<open>None\<close> and the public ones are assigned, \<open>begin\<close> through its setter (the setter
  reads only \<open>_due_time\<close>, so the assignments around it commute with it).
\<close>

definition init_attributes :: "env \<Rightarrow> todo_args \<Rightarrow> error + todo" where
  "init_attributes ev a =
     ebind
       (set_begin
          \<lparr> uid = (case arg_uid a of
                     None \<Rightarrow> uid_gen ev
                   | Some u \<Rightarrow> if truthy_val u then u else uid_gen ev),
            completed = get_arrow (arg_completed a),
            created = get_arrow (arg_created a),
            description = arg_description a,
            priv_begin = None,
            location = arg_location a,
            percent = arg_percent a,
            priority = arg_priority a,
            name = arg_name a,
            url = arg_url a,
            alarms = [],
            unused = [],
            priv_due_time = None,
            priv_duration = None \<rparr>
          (arg_begin a))
       Inr"

text \<open>
  Lines 91 to 102: the branch on the arguments \<open>duration\<close> and \<open>due\<close>. The three
  conditions test the arguments as given, so a number zero counts as not given.
\<close>

definition init_times :: "todo_args \<Rightarrow> todo \<Rightarrow> error + todo" where
  "init_times a self =
     (if truthy_arg (arg_duration a) \<and> truthy_arrow_arg (arg_due a) then
        Inl (ValueError
          ''Todo() may not specify a duration and due date                at the same time'')
      else if truthy_arg (arg_duration a) then
        (if \<not> truthy_arrow_arg (arg_begin a) then
           Inl (ValueError
             ''Todo() must specify a begin if a duration                    is specified'')
         else set_duration self (arg_duration a))
      else if truthy_arrow_arg (arg_due a) then set_due self (arg_due a)
      else Inr self)"

text \<open>
  Lines 104 and 105: \<open>self.alarms.update(set(alarms))\<close>; the set is a list without
  duplicates.
\<close>

definition init_alarms :: "todo_args \<Rightarrow> todo \<Rightarrow> todo" where
  "init_alarms a self =
     (case arg_alarms a of
        None \<Rightarrow> self
      | Some xs \<Rightarrow> self\<lparr>alarms := remdups xs\<rparr>)"

definition todo_init :: "env \<Rightarrow> todo_args \<Rightarrow> error + todo" where
  "todo_init ev a =
     ebind (init_attributes ev a) (\<lambda>self.
       ebind (init_times a self) (\<lambda>self'. Inr (init_alarms a self')))"

subsubsection \<open>The window tests\<close>

text \<open>The second operand of a binary method: a \<open>Todo\<close>, a \<open>datetime\<close>, or anything else.\<close>

datatype pyobj = TodoObj todo | DatetimeObj arrow | OtherObj

definition starts_within :: "todo \<Rightarrow> pyobj \<Rightarrow> error + bool" where
  "starts_within self other =
     (case other of
        TodoObj oth \<Rightarrow>
          if get_begin self = None \<or> get_begin oth = None then Inr False
          else ebind (get_due oth) (\<lambda>odue.
            if odue = None then Inr False
            else ebind (py_cmp (\<le>) (get_begin oth) (get_begin self)) (\<lambda>c.
              if c then py_cmp (\<le>) (get_begin self) odue else Inr False))
      | _ \<Rightarrow> Inl NotImplementedError)"

definition due_within :: "todo \<Rightarrow> pyobj \<Rightarrow> error + bool" where
  "due_within self other =
     (case other of
        TodoObj oth \<Rightarrow>
          if get_begin self = None \<or> get_begin oth = None then Inr False
          else ebind (get_due oth) (\<lambda>odue.
            if odue = None then Inr False
            else ebind (get_due self) (\<lambda>sdue.
              ebind (py_cmp (\<le>) (get_begin oth) sdue) (\<lambda>c.
                if c then py_cmp (\<le>) sdue odue else Inr False)))
      | _ \<Rightarrow> Inl NotImplementedError)"

subsubsection \<open>The ordering operators\<close>

definition todo_lt :: "todo \<Rightarrow> pyobj \<Rightarrow> error + bool" where
  "todo_lt self other =
     (case other of
        TodoObj oth \<Rightarrow>
          ebind (get_due self) (\<lambda>sdue. ebind (get_due oth) (\<lambda>odue.
            if sdue = None \<and> odue = None then
              (case (name self, name oth) of
                 (None, None) \<Rightarrow> Inr False
               | (None, Some b) \<Rightarrow> Inr True
               | (Some a, None) \<Rightarrow> Inr False
               | (Some a, Some b) \<Rightarrow> Inr (a < b))
            else py_cmp (<) sdue odue))
      | DatetimeObj dt \<Rightarrow> ebind (get_due self) (\<lambda>sdue. py_cmp (<) sdue (Some dt))
      | OtherObj \<Rightarrow> Inl NotImplementedError)"

definition todo_le :: "todo \<Rightarrow> pyobj \<Rightarrow> error + bool" where
  "todo_le self other =
     (case other of
        TodoObj oth \<Rightarrow>
          ebind (get_due self) (\<lambda>sdue. ebind (get_due oth) (\<lambda>odue.
            if sdue = None \<and> odue = None then
              (case (name self, name oth) of
                 (None, None) \<Rightarrow> Inr True
               | (None, Some b) \<Rightarrow> Inr True
               | (Some a, None) \<Rightarrow> Inr False
               | (Some a, Some b) \<Rightarrow> Inr (a \<le> b))
            else py_cmp (\<le>) sdue odue))
      | DatetimeObj dt \<Rightarrow> ebind (get_due self) (\<lambda>sdue. py_cmp (\<le>) sdue (Some dt))
      | OtherObj \<Rightarrow> Inl NotImplementedError)"

definition todo_gt :: "todo \<Rightarrow> pyobj \<Rightarrow> error + bool" where
  "todo_gt self other =
     (case other of
        TodoObj oth \<Rightarrow>
          ebind (get_due self) (\<lambda>sdue. ebind (get_due oth) (\<lambda>odue.
            if sdue = None \<and> odue = None then py_cmp (>) (name self) (name oth)
            else py_cmp (>) sdue odue))
      | DatetimeObj dt \<Rightarrow> ebind (get_due self) (\<lambda>sdue. py_cmp (>) sdue (Some dt))
      | OtherObj \<Rightarrow> Inl NotImplementedError)"

definition todo_ge :: "todo \<Rightarrow> pyobj \<Rightarrow> error + bool" where
  "todo_ge self other =
     (case other of
        TodoObj oth \<Rightarrow>
          ebind (get_due self) (\<lambda>sdue. ebind (get_due oth) (\<lambda>odue.
            if sdue = None \<and> odue = None then py_cmp (\<ge>) (name self) (name oth)
            else py_cmp (\<ge>) sdue odue))
      | DatetimeObj dt \<Rightarrow> ebind (get_due self) (\<lambda>sdue. py_cmp (\<ge>) sdue (Some dt))
      | OtherObj \<Rightarrow> Inl NotImplementedError)"

subsection \<open>Inputs: the extractors\<close>

text \<open>
  A handler receives the entry under construction and the matching line, \<open>None\<close> when the
  container has no such line. A property line is always true in a condition, so
  \<open>if line\<close> tests for \<open>None\<close>.
\<close>

definition dtstamp_extractor :: "env \<Rightarrow> todo \<Rightarrow> item option \<Rightarrow> error + todo" where
  "dtstamp_extractor ev t line =
     (case line of
        None \<Rightarrow> Inr t
      | Some l \<Rightarrow> ebind (iso_to_arrow ev l) (\<lambda>a. Inr (t\<lparr>created := Some a\<rparr>)))"

definition uid_extractor :: "env \<Rightarrow> todo \<Rightarrow> item option \<Rightarrow> error + todo" where
  "uid_extractor ev t line =
     (case line of
        None \<Rightarrow> Inr t
      | Some l \<Rightarrow> ebind (line_value line) (\<lambda>v. Inr (t\<lparr>uid := v\<rparr>)))"

definition completed_extractor :: "env \<Rightarrow> todo \<Rightarrow> item option \<Rightarrow> error + todo" where
  "completed_extractor ev t line =
     (case line of
        None \<Rightarrow> Inr t
      | Some l \<Rightarrow> ebind (iso_to_arrow ev l) (\<lambda>a. Inr (t\<lparr>completed := Some a\<rparr>)))"

text \<open>\<open>unescape_string(line.value) if line else None\<close>, shared by four handlers.\<close>

definition unescaped :: "env \<Rightarrow> item option \<Rightarrow> error + string option" where
  "unescaped ev line =
     (case line of
        None \<Rightarrow> Inr None
      | Some l \<Rightarrow> ebind (line_value line) (\<lambda>v.
          ebind (unescape_string ev v) (\<lambda>s. Inr (Some s))))"

definition description_extractor :: "env \<Rightarrow> todo \<Rightarrow> item option \<Rightarrow> error + todo" where
  "description_extractor ev t line =
     ebind (unescaped ev line) (\<lambda>s. Inr (t\<lparr>description := s\<rparr>))"

definition start_extractor :: "env \<Rightarrow> todo \<Rightarrow> item option \<Rightarrow> error + todo" where
  "start_extractor ev t line =
     (case line of
        None \<Rightarrow> Inr t
      | Some l \<Rightarrow> ebind (iso_to_arrow ev l) (\<lambda>a. set_begin t (Some (ArrowArg a))))"

definition location_extractor :: "env \<Rightarrow> todo \<Rightarrow> item option \<Rightarrow> error + todo" where
  "location_extractor ev t line =
     ebind (unescaped ev line) (\<lambda>s. Inr (t\<lparr>location := s\<rparr>))"

text \<open>
  \<open>line.value < 0 or line.value > 100\<close> is evaluated before \<open>if line\<close>: on \<open>None\<close> the
  attribute access raises, and a string compared with an integer is a \<open>TypeError\<close>.
\<close>

definition percent_extractor :: "env \<Rightarrow> todo \<Rightarrow> item option \<Rightarrow> error + todo" where
  "percent_extractor ev t line =
     ebind (line_value line) (\<lambda>v.
       case v of
         StrVal s \<Rightarrow> Inl TypeError
       | IntVal n \<Rightarrow>
           if n < 0 \<or> n > 100 then Inl (ValueError ''PERCENT-COMPLETE must be [0, 100]'')
           else Inr (t\<lparr>percent := Some n\<rparr>))"

definition priority_extractor :: "env \<Rightarrow> todo \<Rightarrow> item option \<Rightarrow> error + todo" where
  "priority_extractor ev t line =
     ebind (line_value line) (\<lambda>v.
       case v of
         StrVal s \<Rightarrow> Inl TypeError
       | IntVal n \<Rightarrow>
           if n < 0 \<or> n > 9 then Inl (ValueError ''PRIORITY must be [0, 9]'')
           else Inr (t\<lparr>priority := Some n\<rparr>))"

definition summary_extractor :: "env \<Rightarrow> todo \<Rightarrow> item option \<Rightarrow> error + todo" where
  "summary_extractor ev t line =
     ebind (unescaped ev line) (\<lambda>s. Inr (t\<lparr>name := s\<rparr>))"

definition url_extractor :: "env \<Rightarrow> todo \<Rightarrow> item option \<Rightarrow> error + todo" where
  "url_extractor ev t line =
     ebind (unescaped ev line) (\<lambda>s. Inr (t\<lparr>url := s\<rparr>))"

text \<open>The two handlers below write the private attributes, not the properties.\<close>

definition due_extractor :: "env \<Rightarrow> todo \<Rightarrow> item option \<Rightarrow> error + todo" where
  "due_extractor ev t line =
     (case line of
        None \<Rightarrow> Inr t
      | Some l \<Rightarrow>
          if truthy_td (priv_duration t)
          then Inl (ValueError ''A todo can't have both DUE and DURATION'')
          else ebind (iso_to_arrow ev l) (\<lambda>a. Inr (t\<lparr>priv_due_time := Some a\<rparr>)))"

definition duration_extractor :: "env \<Rightarrow> todo \<Rightarrow> item option \<Rightarrow> error + todo" where
  "duration_extractor ev t line =
     (case line of
        None \<Rightarrow> Inr t
      | Some l \<Rightarrow>
          if priv_due_time t \<noteq> None
          then Inl (ValueError ''An todo can't have both DUE and DURATION'')
          else ebind (line_value line) (\<lambda>v.
            ebind (parse_duration ev v) (\<lambda>d. Inr (t\<lparr>priv_duration := Some d\<rparr>))))"

fun map_err :: "('a \<Rightarrow> error + 'b) \<Rightarrow> 'a list \<Rightarrow> error + 'b list" where
  "map_err f [] = Inr []"
| "map_err f (x # xs) = ebind (f x) (\<lambda>y. ebind (map_err f xs) (\<lambda>ys. Inr (y # ys)))"

definition alarms_extractor :: "env \<Rightarrow> todo \<Rightarrow> item list \<Rightarrow> error + todo" where
  "alarms_extractor ev t lines =
     ebind (map_err (alarm_from_container ev) lines) (\<lambda>xs. Inr (t\<lparr>alarms := xs\<rparr>))"

subsection \<open>The extraction registry\<close>

text \<open>
  The decorators \<open>@Todo._extracts(tag, required, multiple)\<close> fill \<open>_EXTRACTORS\<close> in the
  order of the file. A handler takes one line or, when registered with
  \<open>multiple=True\<close>, the list of matching lines.
\<close>

datatype handler =
    Single "env \<Rightarrow> todo \<Rightarrow> item option \<Rightarrow> error + todo"
  | Multiple "env \<Rightarrow> todo \<Rightarrow> item list \<Rightarrow> error + todo"

record extractor =
  ex_type :: string
  ex_required :: bool
  ex_function :: handler

definition EXTRACTORS :: "extractor list" where
  "EXTRACTORS =
     [\<lparr>ex_type = ''DTSTAMP'', ex_required = True, ex_function = Single dtstamp_extractor\<rparr>,
      \<lparr>ex_type = ''UID'', ex_required = True, ex_function = Single uid_extractor\<rparr>,
      \<lparr>ex_type = ''COMPLETED'', ex_required = False, ex_function = Single completed_extractor\<rparr>,
      \<lparr>ex_type = ''DESCRIPTION'', ex_required = False,
         ex_function = Single description_extractor\<rparr>,
      \<lparr>ex_type = ''DTSTART'', ex_required = False, ex_function = Single start_extractor\<rparr>,
      \<lparr>ex_type = ''LOCATION'', ex_required = False, ex_function = Single location_extractor\<rparr>,
      \<lparr>ex_type = ''PERCENT-COMPLETE'', ex_required = False,
         ex_function = Single percent_extractor\<rparr>,
      \<lparr>ex_type = ''PRIORITY'', ex_required = False, ex_function = Single priority_extractor\<rparr>,
      \<lparr>ex_type = ''SUMMARY'', ex_required = False, ex_function = Single summary_extractor\<rparr>,
      \<lparr>ex_type = ''URL'', ex_required = False, ex_function = Single url_extractor\<rparr>,
      \<lparr>ex_type = ''DUE'', ex_required = False, ex_function = Single due_extractor\<rparr>,
      \<lparr>ex_type = ''DURATION'', ex_required = False, ex_function = Single duration_extractor\<rparr>,
      \<lparr>ex_type = ''VALARM'', ex_required = False, ex_function = Multiple alarms_extractor\<rparr>]"

definition has_line :: "string \<Rightarrow> container \<Rightarrow> bool" where
  "has_line tag c = (Some tag \<in> set (map item_name c))"

definition get_lines :: "container \<Rightarrow> string \<Rightarrow> item list" where
  "get_lines c tag = filter (\<lambda>i. item_name i = Some tag) c"

definition drop_lines :: "container \<Rightarrow> string \<Rightarrow> container" where
  "drop_lines c tag = filter (\<lambda>i. item_name i \<noteq> Some tag) c"

text \<open>
  Modelled from the spec: the driver that applies the registry (\<open>Component._populate\<close> of
  \<open>ics.component\<close>) is not among the sources. By section 4.2 of the spec each handler
  runs once, in registration order; it receives the single matching line, or the list of
  matching lines for a repeatable tag; a required tag with no matching line fails with
  \<open>MissingProperty\<close>; the lines no handler claims stay, in their order, as the unused
  lines. The spec does not say what a second line of a non-repeatable tag does: here it
  fails with \<open>MalformedProperty\<close>.
\<close>

definition run_extractor ::
  "env \<Rightarrow> extractor \<Rightarrow> todo \<times> container \<Rightarrow> error + todo \<times> container" where
  "run_extractor ev ex tc =
     (let t = fst tc; c = snd tc;
          lines = get_lines c (ex_type ex);
          rest = drop_lines c (ex_type ex) in
      if lines = [] \<and> ex_required ex then Inl (MissingProperty (ex_type ex))
      else
        ebind
          (case ex_function ex of
             Multiple f \<Rightarrow> f ev t lines
           | Single f \<Rightarrow>
               (case lines of
                  [] \<Rightarrow> f ev t None
                | [l] \<Rightarrow> f ev t (Some l)
                | l # l' # ls \<Rightarrow> Inl (MalformedProperty (ex_type ex))))
          (\<lambda>t'. Inr (t', rest)))"

fun run_extractors ::
  "env \<Rightarrow> extractor list \<Rightarrow> todo \<times> container \<Rightarrow> error + todo \<times> container" where
  "run_extractors ev [] tc = Inr tc"
| "run_extractors ev (ex # exs) tc = ebind (run_extractor ev ex tc) (run_extractors ev exs)"

definition populate :: "env \<Rightarrow> container \<Rightarrow> error + todo" where
  "populate ev c =
     ebind (todo_init ev no_args) (\<lambda>t0.
       ebind (run_extractors ev EXTRACTORS (t0, c)) (\<lambda>tc.
         Inr ((fst tc)\<lparr>unused := snd tc\<rparr>)))"

subsection \<open>Outputs: the producers\<close>

definition o_uid :: "env \<Rightarrow> todo \<Rightarrow> container \<Rightarrow> container" where
  "o_uid ev t c =
     c @ [ContentLine ''UID'' [] (if truthy_val (uid t) then uid t else uid_gen ev)]"

definition o_completed :: "env \<Rightarrow> todo \<Rightarrow> container \<Rightarrow> container" where
  "o_completed ev t c =
     c @ [ContentLine ''COMPLETED'' []
            (StrVal (arrow_to_iso ev (case completed t of Some a \<Rightarrow> a | None \<Rightarrow> now ev)))]"

definition o_created :: "env \<Rightarrow> todo \<Rightarrow> container \<Rightarrow> container" where
  "o_created ev t c =
     c @ [ContentLine ''DTSTAMP'' []
            (StrVal (arrow_to_iso ev (case created t of Some a \<Rightarrow> a | None \<Rightarrow> now ev)))]"

text \<open>\<open>if s: container.append(ContentLine(tag, value=escape_string(s)))\<close>.\<close>

definition o_text :: "env \<Rightarrow> string \<Rightarrow> string option \<Rightarrow> container \<Rightarrow> container" where
  "o_text ev tag s c =
     (case s of
        None \<Rightarrow> c
      | Some x \<Rightarrow> if x \<noteq> [] then c @ [ContentLine tag [] (StrVal (escape_string ev x))] else c)"

definition o_description :: "env \<Rightarrow> todo \<Rightarrow> container \<Rightarrow> container" where
  "o_description ev t c = o_text ev ''DESCRIPTION'' (description t) c"

definition o_start :: "env \<Rightarrow> todo \<Rightarrow> container \<Rightarrow> container" where
  "o_start ev t c =
     (case get_begin t of
        Some a \<Rightarrow> c @ [ContentLine ''DTSTART'' [] (StrVal (arrow_to_iso ev a))]
      | None \<Rightarrow> c)"

definition o_location :: "env \<Rightarrow> todo \<Rightarrow> container \<Rightarrow> container" where
  "o_location ev t c = o_text ev ''LOCATION'' (location t) c"

text \<open>\<open>if n: container.append(ContentLine(tag, value=n))\<close>: zero is false.\<close>

definition o_number :: "string \<Rightarrow> int option \<Rightarrow> container \<Rightarrow> container" where
  "o_number tag n c =
     (case n of
        None \<Rightarrow> c
      | Some x \<Rightarrow> if x \<noteq> 0 then c @ [ContentLine tag [] (IntVal x)] else c)"

definition o_percent :: "env \<Rightarrow> todo \<Rightarrow> container \<Rightarrow> container" where
  "o_percent ev t c = o_number ''PERCENT-COMPLETE'' (percent t) c"

definition o_priority :: "env \<Rightarrow> todo \<Rightarrow> container \<Rightarrow> container" where
  "o_priority ev t c = o_number ''PRIORITY'' (priority t) c"

definition o_summary :: "env \<Rightarrow> todo \<Rightarrow> container \<Rightarrow> container" where
  "o_summary ev t c = o_text ev ''SUMMARY'' (name t) c"

definition o_url :: "env \<Rightarrow> todo \<Rightarrow> container \<Rightarrow> container" where
  "o_url ev t c = o_text ev ''URL'' (url t) c"

definition o_due :: "env \<Rightarrow> todo \<Rightarrow> container \<Rightarrow> container" where
  "o_due ev t c =
     (case priv_due_time t of
        Some a \<Rightarrow> c @ [ContentLine ''DUE'' [] (StrVal (arrow_to_iso ev a))]
      | None \<Rightarrow> c)"

definition o_duration :: "env \<Rightarrow> todo \<Rightarrow> container \<Rightarrow> container" where
  "o_duration ev t c =
     (case priv_duration t of
        Some d \<Rightarrow>
          if d \<noteq> 0 \<and> get_begin t \<noteq> None
          then c @ [ContentLine ''DURATION'' [] (StrVal (timedelta_to_duration ev d))]
          else c
      | None \<Rightarrow> c)"

definition o_alarm :: "env \<Rightarrow> todo \<Rightarrow> container \<Rightarrow> container" where
  "o_alarm ev t c = c @ map (\<lambda>a. Rendered (alarm_str ev a)) (alarms t)"

text \<open>\<open>_OUTPUTS\<close>, in the order of the decorators \<open>@Todo._outputs\<close>.\<close>

definition OUTPUTS :: "(env \<Rightarrow> todo \<Rightarrow> container \<Rightarrow> container) list" where
  "OUTPUTS = [o_uid, o_completed, o_created, o_description, o_start, o_location,
     o_percent, o_priority, o_summary, o_url, o_due, o_duration, o_alarm]"

text \<open>
  Modelled from the spec: the driver that runs the producers (\<open>Component.__str__\<close> of
  \<open>ics.component\<close>) is not among the sources. By section 4.3 of the spec the producers
  run in registration order on an empty output container, and the unused lines are
  appended after them.
\<close>

definition run_outputs :: "env \<Rightarrow> todo \<Rightarrow> container \<Rightarrow> container" where
  "run_outputs ev t c = fold (\<lambda>out acc. out ev t acc) OUTPUTS c"

definition serialize :: "env \<Rightarrow> todo \<Rightarrow> container" where
  "serialize ev t = run_outputs ev t [] @ unused t"

subsection \<open>Sequences of mutations\<close>

text \<open>
  The operations that touch \<open>_begin\<close>, \<open>_due_time\<close> and \<open>_duration\<close> after construction:
  the three setters and the handlers of \<open>DUE\<close> and \<open>DURATION\<close>. In each of them every
  \<open>raise\<close> precedes the assignments, so an operation that fails leaves the object as it
  was, and a caller that catches the exception goes on with the same object.
\<close>

datatype operation =
    SetBegin "arrow_arg option"
  | SetDue "arrow_arg option"
  | SetDuration duration_arg
  | ExtractDue "item option"
  | ExtractDuration "item option"

fun apply_op :: "env \<Rightarrow> todo \<Rightarrow> operation \<Rightarrow> error + todo" where
  "apply_op ev t (SetBegin v) = set_begin t v"
| "apply_op ev t (SetDue v) = set_due t v"
| "apply_op ev t (SetDuration v) = set_duration t v"
| "apply_op ev t (ExtractDue line) = due_extractor ev t line"
| "apply_op ev t (ExtractDuration line) = duration_extractor ev t line"

definition step :: "env \<Rightarrow> todo \<Rightarrow> operation \<Rightarrow> todo" where
  "step ev t op = (case apply_op ev t op of Inl e \<Rightarrow> t | Inr t' \<Rightarrow> t')"

definition run_ops :: "env \<Rightarrow> todo \<Rightarrow> operation list \<Rightarrow> todo" where
  "run_ops ev t ops = foldl (step ev) t ops"

text \<open>
  The exclusion the code maintains: \<open>_due_time\<close> and a \<open>_duration\<close> that is true in a
  condition (present and not zero) are never stored together.
\<close>

definition exclusive :: "todo \<Rightarrow> bool" where
  "exclusive t = (\<not> (priv_due_time t \<noteq> None \<and> truthy_td (priv_duration t)))"

subsection \<open>Concrete collaborators and a concrete entry\<close>

text \<open>
  One choice of the outside functions, for evaluating the model: an instant and a
  duration are read from an integer value, text fields from a string value.
\<close>

definition test_env :: env where
  "test_env =
     \<lparr> uid_gen = StrVal ''generated-uid'',
       now = 0,
       iso_to_arrow = (\<lambda>l. case l of
                               ContentLine n ps (IntVal k) \<Rightarrow> Inr k
                             | _ \<Rightarrow> Inl (ValueError ''not a timestamp'')),
       arrow_to_iso = (\<lambda>a. ''T''),
       parse_duration = (\<lambda>v. case v of
                                 IntVal k \<Rightarrow> Inr k
                               | StrVal s \<Rightarrow> Inl (ValueError ''not a duration'')),
       timedelta_to_duration = (\<lambda>d. ''P''),
       unescape_string = (\<lambda>v. case v of
                                  StrVal s \<Rightarrow> Inr s
                                | IntVal k \<Rightarrow> Inl AttributeError),
       escape_string = (\<lambda>s. s),
       alarm_from_container = (\<lambda>i. Inl (ValueError ''not an alarm'')),
       alarm_str = (\<lambda>a. ''ALARM'') \<rparr>"

text \<open>The entry \<open>Todo()\<close> built with \<open>test_env\<close>.\<close>

definition blank_todo :: todo where
  "blank_todo =
     \<lparr> uid = StrVal ''generated-uid'', completed = None, created = None,
       description = None, priv_begin = None, location = None, percent = None,
       priority = None, name = None, url = None, alarms = [], unused = [],
       priv_due_time = None, priv_duration = None \<rparr>"

section \<open>Properties\<close>

subsection \<open>The error monad and the accessors\<close>

lemma ebind_Inl [simp]: "ebind (Inl e) f = Inl e"
  by (simp add: ebind_def)

lemma ebind_Inr [simp]: "ebind (Inr x) f = f x"
  by (simp add: ebind_def)

lemma ebind_eq_Inr: "ebind m f = Inr y \<longleftrightarrow> (\<exists>x. m = Inr x \<and> f x = Inr y)"
  by (cases m) simp_all

lemma set_begin_fields:
  "set_begin t v = Inr t' \<Longrightarrow> t' = t\<lparr>priv_begin := get_arrow v\<rparr>"
  by (auto simp: set_begin_def Let_def split: option.splits if_splits)

lemma get_arrow_None [simp]: "get_arrow v = None \<longleftrightarrow> v = None"
  by (cases v rule: get_arrow.cases) simp_all

lemma set_due_cases:
  "set_due t v = Inr t' \<Longrightarrow>
     (v = None \<and> t' = t\<lparr>priv_due_time := None\<rparr>) \<or>
     (\<exists>d. get_arrow v = Some d \<and>
        t' = t\<lparr>priv_due_time := Some d, priv_duration := None\<rparr>)"
  by (cases "get_arrow v") (auto simp: set_due_def ebind_eq_Inr split: if_splits)

lemma set_duration_cases:
  "set_duration t v = Inr t' \<Longrightarrow>
     \<exists>val. coerce_duration v = Inr val \<and>
       t' = (if truthy_td val then t\<lparr>priv_duration := val, priv_due_time := None\<rparr>
             else t\<lparr>priv_duration := val\<rparr>)"
proof (cases "coerce_duration v")
  case (Inl e)
  assume "set_duration t v = Inr t'"
  with Inl show ?thesis by (simp add: set_duration_def)
next
  case (Inr val)
  assume "set_duration t v = Inr t'"
  with Inr have "t' = (if truthy_td val then t\<lparr>priv_duration := val, priv_due_time := None\<rparr>
             else t\<lparr>priv_duration := val\<rparr>)"
    by (simp add: set_duration_def split: if_splits)
  with Inr show ?thesis by blast
qed

lemma due_extractor_cases:
  "due_extractor ev t line = Inr t' \<Longrightarrow>
     (line = None \<and> t' = t) \<or>
     (\<exists>l a. line = Some l \<and> \<not> truthy_td (priv_duration t) \<and> iso_to_arrow ev l = Inr a \<and>
        t' = t\<lparr>priv_due_time := Some a\<rparr>)"
  by (cases line) (auto simp: due_extractor_def ebind_eq_Inr split: if_splits)

lemma duration_extractor_cases:
  "duration_extractor ev t line = Inr t' \<Longrightarrow>
     (line = None \<and> t' = t) \<or>
     (\<exists>d. priv_due_time t = None \<and> t' = t\<lparr>priv_duration := Some d\<rparr>)"
  by (cases line) (auto simp: duration_extractor_def ebind_eq_Inr split: if_splits)

lemma apply_op_exclusive:
  "apply_op ev t op = Inr t' \<Longrightarrow> exclusive t \<Longrightarrow> exclusive t'"
proof (cases op)
  case (SetBegin v)
  then show "apply_op ev t op = Inr t' \<Longrightarrow> exclusive t \<Longrightarrow> exclusive t'"
    by (auto dest!: set_begin_fields simp: exclusive_def)
next
  case (SetDue v)
  then show "apply_op ev t op = Inr t' \<Longrightarrow> exclusive t \<Longrightarrow> exclusive t'"
    by (auto dest!: set_due_cases simp: exclusive_def)
next
  case (SetDuration v)
  then show "apply_op ev t op = Inr t' \<Longrightarrow> exclusive t \<Longrightarrow> exclusive t'"
    by (auto dest!: set_duration_cases simp: exclusive_def split: if_splits)
next
  case (ExtractDue line)
  then show "apply_op ev t op = Inr t' \<Longrightarrow> exclusive t \<Longrightarrow> exclusive t'"
    by (auto dest!: due_extractor_cases simp: exclusive_def)
next
  case (ExtractDuration line)
  then show "apply_op ev t op = Inr t' \<Longrightarrow> exclusive t \<Longrightarrow> exclusive t'"
    by (auto dest!: duration_extractor_cases simp: exclusive_def)
qed

lemma step_exclusive: "exclusive t \<Longrightarrow> exclusive (step ev t op)"
  by (auto simp: step_def split: sum.splits dest: apply_op_exclusive)

lemma run_ops_exclusive: "exclusive t \<Longrightarrow> exclusive (run_ops ev t ops)"
  unfolding run_ops_def by (induction ops arbitrary: t) (simp_all add: step_exclusive)

lemma init_attributes_priv:
  "init_attributes ev a = Inr s \<Longrightarrow>
     priv_begin s = get_arrow (arg_begin a) \<and> priv_due_time s = None \<and>
     priv_duration s = None \<and> unused s = []"
  by (auto simp: init_attributes_def ebind_eq_Inr dest!: set_begin_fields)

lemma set_due_exclusive: "set_due t v = Inr t' \<Longrightarrow> exclusive t'"
  by (auto dest!: set_due_cases simp: exclusive_def)

lemma set_duration_exclusive: "set_duration t v = Inr t' \<Longrightarrow> exclusive t'"
  by (auto dest!: set_duration_cases simp: exclusive_def split: if_splits)

lemma init_times_exclusive:
  "init_times a s = Inr s' \<Longrightarrow> exclusive s \<Longrightarrow> exclusive s'"
  by (auto simp: init_times_def split: if_splits
      dest: set_due_exclusive set_duration_exclusive)

lemma init_alarms_priv [simp]:
  "priv_due_time (init_alarms a s) = priv_due_time s"
  "priv_duration (init_alarms a s) = priv_duration s"
  "priv_begin (init_alarms a s) = priv_begin s"
  "unused (init_alarms a s) = unused s"
  by (simp_all add: init_alarms_def split: option.splits)

lemma todo_init_exclusive: "todo_init ev a = Inr t \<Longrightarrow> exclusive t"
proof -
  assume "todo_init ev a = Inr t"
  then obtain s s' where s: "init_attributes ev a = Inr s"
    and s': "init_times a s = Inr s'" and t: "t = init_alarms a s'"
    by (auto simp: todo_init_def ebind_eq_Inr)
  from s have "exclusive s" by (auto dest!: init_attributes_priv simp: exclusive_def)
  with s' have "exclusive s'" by (rule init_times_exclusive)
  with t show "exclusive t" by (simp add: exclusive_def)
qed


lemma init_blank: "todo_init test_env no_args = Inr blank_todo"
  by (simp add: todo_init_def init_attributes_def init_times_def init_alarms_def
       no_args_def test_env_def blank_todo_def set_begin_def)

lemma init_10_20:
  "todo_init test_env (no_args\<lparr>arg_begin := Some (ArrowArg 10), arg_due := Some (ArrowArg 20)\<rparr>)
     = Inr (blank_todo\<lparr>priv_begin := Some 10, priv_due_time := Some 20\<rparr>)"
  by (simp add: todo_init_def init_attributes_def init_times_def init_alarms_def
       no_args_def test_env_def blank_todo_def set_begin_def set_due_def)

subsection \<open>The handlers keep the exclusion\<close>

lemma dtstamp_extractor_priv:
  "dtstamp_extractor ev t line = Inr t' \<Longrightarrow>
     priv_due_time t' = priv_due_time t \<and> priv_duration t' = priv_duration t"
  by (cases line) (auto simp: dtstamp_extractor_def ebind_eq_Inr)

lemma uid_extractor_priv:
  "uid_extractor ev t line = Inr t' \<Longrightarrow>
     priv_due_time t' = priv_due_time t \<and> priv_duration t' = priv_duration t"
  by (cases line) (auto simp: uid_extractor_def ebind_eq_Inr)

lemma completed_extractor_priv:
  "completed_extractor ev t line = Inr t' \<Longrightarrow>
     priv_due_time t' = priv_due_time t \<and> priv_duration t' = priv_duration t"
  by (cases line) (auto simp: completed_extractor_def ebind_eq_Inr)

lemma description_extractor_priv:
  "description_extractor ev t line = Inr t' \<Longrightarrow>
     priv_due_time t' = priv_due_time t \<and> priv_duration t' = priv_duration t"
  by (auto simp: description_extractor_def ebind_eq_Inr)

lemma start_extractor_priv:
  "start_extractor ev t line = Inr t' \<Longrightarrow>
     priv_due_time t' = priv_due_time t \<and> priv_duration t' = priv_duration t"
  by (cases line) (auto simp: start_extractor_def ebind_eq_Inr dest!: set_begin_fields)

lemma location_extractor_priv:
  "location_extractor ev t line = Inr t' \<Longrightarrow>
     priv_due_time t' = priv_due_time t \<and> priv_duration t' = priv_duration t"
  by (auto simp: location_extractor_def ebind_eq_Inr)

lemma percent_extractor_priv:
  "percent_extractor ev t line = Inr t' \<Longrightarrow>
     priv_due_time t' = priv_due_time t \<and> priv_duration t' = priv_duration t"
proof -
  assume "percent_extractor ev t line = Inr t'"
  then obtain v where "(case v of
         StrVal s \<Rightarrow> Inl TypeError
       | IntVal n \<Rightarrow>
           if n < 0 \<or> n > 100 then Inl (ValueError ''PERCENT-COMPLETE must be [0, 100]'')
           else Inr (t\<lparr>percent := Some n\<rparr>)) = Inr t'"
    by (auto simp: percent_extractor_def ebind_eq_Inr)
  then show ?thesis by (cases v) (auto split: if_splits)
qed

lemma priority_extractor_priv:
  "priority_extractor ev t line = Inr t' \<Longrightarrow>
     priv_due_time t' = priv_due_time t \<and> priv_duration t' = priv_duration t"
proof -
  assume "priority_extractor ev t line = Inr t'"
  then obtain v where "(case v of
         StrVal s \<Rightarrow> Inl TypeError
       | IntVal n \<Rightarrow>
           if n < 0 \<or> n > 9 then Inl (ValueError ''PRIORITY must be [0, 9]'')
           else Inr (t\<lparr>priority := Some n\<rparr>)) = Inr t'"
    by (auto simp: priority_extractor_def ebind_eq_Inr)
  then show ?thesis by (cases v) (auto split: if_splits)
qed

lemma summary_extractor_priv:
  "summary_extractor ev t line = Inr t' \<Longrightarrow>
     priv_due_time t' = priv_due_time t \<and> priv_duration t' = priv_duration t"
  by (auto simp: summary_extractor_def ebind_eq_Inr)

lemma url_extractor_priv:
  "url_extractor ev t line = Inr t' \<Longrightarrow>
     priv_due_time t' = priv_due_time t \<and> priv_duration t' = priv_duration t"
  by (auto simp: url_extractor_def ebind_eq_Inr)

lemma alarms_extractor_priv:
  "alarms_extractor ev t lines = Inr t' \<Longrightarrow>
     priv_due_time t' = priv_due_time t \<and> priv_duration t' = priv_duration t"
  by (auto simp: alarms_extractor_def ebind_eq_Inr)

lemma exclusive_cong:
  "priv_due_time t' = priv_due_time t \<and> priv_duration t' = priv_duration t \<Longrightarrow>
     exclusive t \<Longrightarrow> exclusive t'"
  by (simp add: exclusive_def)

lemma due_extractor_exclusive:
  "due_extractor ev t line = Inr t' \<Longrightarrow> exclusive t \<Longrightarrow> exclusive t'"
  by (auto dest!: due_extractor_cases simp: exclusive_def)

lemma duration_extractor_exclusive:
  "duration_extractor ev t line = Inr t' \<Longrightarrow> exclusive t \<Longrightarrow> exclusive t'"
  by (auto dest!: duration_extractor_cases simp: exclusive_def)

lemma EXTRACTORS_exclusive:
  "ex \<in> set EXTRACTORS \<Longrightarrow>
     (case ex_function ex of
        Single f \<Rightarrow> (\<forall>t x t'. f ev t x = Inr t' \<longrightarrow> exclusive t \<longrightarrow> exclusive t')
      | Multiple f \<Rightarrow> (\<forall>t x t'. f ev t x = Inr t' \<longrightarrow> exclusive t \<longrightarrow> exclusive t'))"
  unfolding EXTRACTORS_def
  by (auto intro: due_extractor_exclusive duration_extractor_exclusive
      exclusive_cong [OF dtstamp_extractor_priv] exclusive_cong [OF uid_extractor_priv]
      exclusive_cong [OF completed_extractor_priv]
      exclusive_cong [OF description_extractor_priv]
      exclusive_cong [OF start_extractor_priv] exclusive_cong [OF location_extractor_priv]
      exclusive_cong [OF percent_extractor_priv] exclusive_cong [OF priority_extractor_priv]
      exclusive_cong [OF summary_extractor_priv] exclusive_cong [OF url_extractor_priv]
      exclusive_cong [OF alarms_extractor_priv])

lemma run_extractor_result:
  "run_extractor ev ex (t, c) = Inr (t', c') \<Longrightarrow>
     c' = drop_lines c (ex_type ex) \<and>
     (case ex_function ex of
        Single f \<Rightarrow> (\<exists>x. f ev t x = Inr t')
      | Multiple f \<Rightarrow> (\<exists>x. f ev t x = Inr t'))"
  by (auto simp: run_extractor_def Let_def ebind_eq_Inr
      split: if_splits handler.splits list.splits)

lemma run_extractors_exclusive:
  "run_extractors ev exs (t, c) = Inr (t', c') \<Longrightarrow> set exs \<subseteq> set EXTRACTORS \<Longrightarrow>
     exclusive t \<Longrightarrow> exclusive t'"
proof (induction exs arbitrary: t c)
  case Nil
  then show ?case by simp
next
  case (Cons ex exs)
  from Cons.prems(1) obtain t1 c1 where r: "run_extractor ev ex (t, c) = Inr (t1, c1)"
    and rest: "run_extractors ev exs (t1, c1) = Inr (t', c')"
    by (auto simp: ebind_eq_Inr)
  from Cons.prems(2) have mem: "ex \<in> set EXTRACTORS" by simp
  from run_extractor_result [OF r] EXTRACTORS_exclusive [OF mem, of ev] Cons.prems(3)
  have "exclusive t1" by (auto split: handler.splits)
  with Cons.IH [OF rest] Cons.prems(2) show ?case by simp
qed

lemma populate_exclusive: "populate ev c = Inr t \<Longrightarrow> exclusive t"
proof -
  assume "populate ev c = Inr t"
  then obtain t0 t1 c1 where i: "todo_init ev no_args = Inr t0"
    and r: "run_extractors ev EXTRACTORS (t0, c) = Inr (t1, c1)"
    and t: "t = t1\<lparr>unused := c1\<rparr>"
    by (auto simp: populate_def ebind_eq_Inr)
  from todo_init_exclusive [OF i] run_extractors_exclusive [OF r] have "exclusive t1" by simp
  with t show "exclusive t" by (simp add: exclusive_def)
qed

subsection \<open>The constructor\<close>

lemma set_begin_no_due:
  "priv_due_time t = None \<Longrightarrow> set_begin t v = Inr (t\<lparr>priv_begin := get_arrow v\<rparr>)"
  by (simp add: set_begin_def Let_def split: option.splits)

lemma init_attributes_begin:
  "\<exists>s. init_attributes ev a = Inr s \<and> priv_begin s = get_arrow (arg_begin a) \<and>
     priv_due_time s = None \<and> priv_duration s = None"
  by (simp add: init_attributes_def set_begin_no_due)

subsection \<open>Entries that the operations can produce\<close>

lemma reachable_exclusive:
  "todo_init ev a = Inr t0 \<or> populate ev c = Inr t0 \<Longrightarrow> exclusive (run_ops ev t0 ops)"
  by (auto intro: run_ops_exclusive todo_init_exclusive populate_exclusive)

lemma get_duration_no_begin:
  "exclusive t \<Longrightarrow> priv_due_time t \<noteq> None \<Longrightarrow> priv_begin t = None \<Longrightarrow>
     get_duration t = Inl TypeError"
  by (cases "priv_duration t")
     (auto simp: exclusive_def get_duration_def get_due_def get_begin_def)

subsection \<open>The driver of the extractors\<close>

lemma has_line_drop_lines: "has_line tag (drop_lines c tag') \<Longrightarrow> has_line tag c"
  by (auto simp: has_line_def drop_lines_def)

lemma get_lines_absent: "\<not> has_line tag c \<Longrightarrow> get_lines c tag = []"
  by (force simp: has_line_def get_lines_def filter_empty_conv image_iff)

lemma run_extractors_has_line:
  "run_extractors ev exs (t, c) = Inr (t', c') \<Longrightarrow> has_line tag c' \<Longrightarrow> has_line tag c"
proof (induction exs arbitrary: t c)
  case Nil
  then show ?case by simp
next
  case (Cons ex exs)
  from Cons.prems(1) obtain t1 c1 where r: "run_extractor ev ex (t, c) = Inr (t1, c1)"
    and rest: "run_extractors ev exs (t1, c1) = Inr (t', c')"
    by (auto simp: ebind_eq_Inr)
  from Cons.IH [OF rest Cons.prems(2)] have "has_line tag c1" .
  with run_extractor_result [OF r] show ?case by (auto dest: has_line_drop_lines)
qed

lemma run_extractors_append:
  "run_extractors ev (xs @ ys) tc = ebind (run_extractors ev xs tc) (run_extractors ev ys)"
proof (induction xs arbitrary: tc)
  case Nil
  then show ?case by simp
next
  case (Cons x xs)
  then show ?case by (cases "run_extractor ev x tc") simp_all
qed

lemma run_extractor_absent:
  "\<not> has_line (ex_type ex) c \<Longrightarrow> \<not> ex_required ex \<Longrightarrow> ex_function ex = Single f \<Longrightarrow>
     f ev t None = Inl e \<Longrightarrow> run_extractor ev ex (t, c) = Inl e"
  by (simp add: run_extractor_def get_lines_absent)

lemma run_extractors_fail_at:
  assumes absent: "\<not> has_line (ex_type ex) c"
    and opt: "\<not> ex_required ex" and single: "ex_function ex = Single f"
    and fails: "\<And>t. f ev t None = Inl e"
  shows "\<exists>e'. run_extractors ev (xs @ ex # ys) (t, c) = Inl e'"
proof (cases "run_extractors ev xs (t, c)")
  case (Inl e')
  then show ?thesis by (simp add: run_extractors_append)
next
  case (Inr tc)
  obtain t1 c1 where tc: "tc = (t1, c1)" by (cases tc)
  with Inr absent have "\<not> has_line (ex_type ex) c1"
    by (auto dest: run_extractors_has_line)
  from run_extractor_absent [OF this opt single fails]
  have "run_extractor ev ex (t1, c1) = Inl e" .
  with Inr tc show ?thesis by (simp add: run_extractors_append)
qed

lemma percent_extractor_None: "percent_extractor ev t None = Inl AttributeError"
  by (simp add: percent_extractor_def)

lemma priority_extractor_None: "priority_extractor ev t None = Inl AttributeError"
  by (simp add: priority_extractor_def)

lemma populate_fails_from_extractors:
  "(\<And>t. \<exists>e. run_extractors ev EXTRACTORS (t, c) = Inl e) \<Longrightarrow> \<exists>e. populate ev c = Inl e"
proof -
  assume h: "\<And>t. \<exists>e. run_extractors ev EXTRACTORS (t, c) = Inl e"
  show ?thesis
  proof (cases "todo_init ev no_args")
    case (Inl e)
    then show ?thesis by (simp add: populate_def)
  next
    case (Inr t0)
    from h [of t0] obtain e where "run_extractors ev EXTRACTORS (t0, c) = Inl e" ..
    with Inr show ?thesis by (simp add: populate_def)
  qed
qed

lemma get_lines_Cons [simp]:
  "get_lines (x # xs) tag = (if item_name x = Some tag then x # get_lines xs tag else get_lines xs tag)"
  "get_lines [] tag = []"
  by (simp_all add: get_lines_def)

lemma drop_lines_Cons [simp]:
  "drop_lines (x # xs) tag = (if item_name x = Some tag then drop_lines xs tag else x # drop_lines xs tag)"
  "drop_lines [] tag = []"
  by (simp_all add: drop_lines_def)

lemma test_env_fields [simp]:
  "uid_gen test_env = StrVal ''generated-uid''"
  "iso_to_arrow test_env (ContentLine n ps (IntVal k)) = Inr k"
  "parse_duration test_env (IntVal k) = Inr k"
  "unescape_string test_env (StrVal s) = Inr s"
  by (simp_all add: test_env_def)

lemma populate_without_percent:
  "populate test_env
     [ContentLine ''DTSTAMP'' [] (IntVal 1), ContentLine ''UID'' [] (StrVal ''u1'')]
   = Inl AttributeError"
  by (simp add: populate_def init_blank EXTRACTORS_def run_extractor_def Let_def
       dtstamp_extractor_def uid_extractor_def completed_extractor_def
       description_extractor_def unescaped_def start_extractor_def location_extractor_def
       percent_extractor_def)

lemma populate_with_due:
  "populate test_env
     [ContentLine ''X-NOTE'' [] (StrVal ''kept''),
      ContentLine ''DTSTAMP'' [] (IntVal 1), ContentLine ''UID'' [] (StrVal ''u1''),
      ContentLine ''PERCENT-COMPLETE'' [] (IntVal 50), ContentLine ''PRIORITY'' [] (IntVal 1),
      ContentLine ''DUE'' [] (IntVal 20)]
   = Inr (blank_todo\<lparr>uid := StrVal ''u1'', created := Some 1, percent := Some 50,
            priority := Some 1, priv_due_time := Some 20,
            unused := [ContentLine ''X-NOTE'' [] (StrVal ''kept'')]\<rparr>)"
  by (simp add: populate_def init_blank EXTRACTORS_def run_extractor_def Let_def
       dtstamp_extractor_def uid_extractor_def completed_extractor_def
       description_extractor_def unescaped_def start_extractor_def location_extractor_def
       percent_extractor_def priority_extractor_def summary_extractor_def url_extractor_def
       due_extractor_def duration_extractor_def alarms_extractor_def blank_todo_def)

subsection \<open>The lines the producers append\<close>

lemma has_line_Nil [simp]: "\<not> has_line tag []"
  by (simp add: has_line_def)

lemma has_line_append [simp]: "has_line tag (c @ c') \<longleftrightarrow> has_line tag c \<or> has_line tag c'"
  by (auto simp: has_line_def)

lemma has_line_ContentLine [simp]: "has_line tag [ContentLine n ps v] \<longleftrightarrow> tag = n"
  by (auto simp: has_line_def)

lemma has_line_Rendered [simp]: "\<not> has_line tag (map (\<lambda>a. Rendered (f a)) xs)"
  by (auto simp: has_line_def)

lemma has_line_o_text:
  "has_line tag (o_text ev n s c) \<longleftrightarrow> has_line tag c \<or> (tag = n \<and> s \<noteq> None \<and> s \<noteq> Some [])"
  by (cases s) (auto simp: o_text_def)

lemma has_line_o_number:
  "has_line tag (o_number n x c) \<longleftrightarrow> has_line tag c \<or> (tag = n \<and> x \<noteq> None \<and> x \<noteq> Some 0)"
  by (cases x) (auto simp: o_number_def)

lemma has_line_producers:
  "has_line tag (o_uid ev t c) \<longleftrightarrow> has_line tag c \<or> tag = ''UID''"
  "has_line tag (o_completed ev t c) \<longleftrightarrow> has_line tag c \<or> tag = ''COMPLETED''"
  "has_line tag (o_created ev t c) \<longleftrightarrow> has_line tag c \<or> tag = ''DTSTAMP''"
  "has_line tag (o_description ev t c) \<longleftrightarrow>
     has_line tag c \<or> (tag = ''DESCRIPTION'' \<and> description t \<noteq> None \<and> description t \<noteq> Some [])"
  "has_line tag (o_start ev t c) \<longleftrightarrow> has_line tag c \<or> (tag = ''DTSTART'' \<and> priv_begin t \<noteq> None)"
  "has_line tag (o_location ev t c) \<longleftrightarrow>
     has_line tag c \<or> (tag = ''LOCATION'' \<and> location t \<noteq> None \<and> location t \<noteq> Some [])"
  "has_line tag (o_percent ev t c) \<longleftrightarrow>
     has_line tag c \<or> (tag = ''PERCENT-COMPLETE'' \<and> percent t \<noteq> None \<and> percent t \<noteq> Some 0)"
  "has_line tag (o_priority ev t c) \<longleftrightarrow>
     has_line tag c \<or> (tag = ''PRIORITY'' \<and> priority t \<noteq> None \<and> priority t \<noteq> Some 0)"
  "has_line tag (o_summary ev t c) \<longleftrightarrow>
     has_line tag c \<or> (tag = ''SUMMARY'' \<and> name t \<noteq> None \<and> name t \<noteq> Some [])"
  "has_line tag (o_url ev t c) \<longleftrightarrow>
     has_line tag c \<or> (tag = ''URL'' \<and> url t \<noteq> None \<and> url t \<noteq> Some [])"
  "has_line tag (o_due ev t c) \<longleftrightarrow> has_line tag c \<or> (tag = ''DUE'' \<and> priv_due_time t \<noteq> None)"
  "has_line tag (o_duration ev t c) \<longleftrightarrow>
     has_line tag c \<or> (tag = ''DURATION'' \<and> truthy_td (priv_duration t) \<and> priv_begin t \<noteq> None)"
  "has_line tag (o_alarm ev t c) \<longleftrightarrow> has_line tag c"
  by (auto simp: o_uid_def o_completed_def o_created_def o_description_def o_start_def
      o_location_def o_percent_def o_priority_def o_summary_def o_url_def o_due_def
      o_duration_def o_alarm_def has_line_o_text has_line_o_number get_begin_def
      split: option.splits)

lemma run_outputs_unfold:
  "run_outputs ev t c =
     o_alarm ev t (o_duration ev t (o_due ev t (o_url ev t (o_summary ev t (o_priority ev t
       (o_percent ev t (o_location ev t (o_start ev t (o_description ev t (o_created ev t
         (o_completed ev t (o_uid ev t c))))))))))))"
  by (simp add: run_outputs_def OUTPUTS_def)

lemma has_line_DUE_outputs:
  "has_line ''DUE'' (run_outputs ev t c) \<longleftrightarrow> has_line ''DUE'' c \<or> priv_due_time t \<noteq> None"
  by (simp add: run_outputs_unfold has_line_producers)

lemma has_line_DURATION_outputs:
  "has_line ''DURATION'' (run_outputs ev t c) \<longleftrightarrow>
     has_line ''DURATION'' c \<or> (truthy_td (priv_duration t) \<and> priv_begin t \<noteq> None)"
  by (simp add: run_outputs_unfold has_line_producers)

lemma apply_op_unused: "apply_op ev t op = Inr t' \<Longrightarrow> unused t' = unused t"
  by (cases op)
     (auto dest!: set_begin_fields set_due_cases set_duration_cases due_extractor_cases
        duration_extractor_cases split: if_splits)

lemma run_ops_unused: "unused (run_ops ev t ops) = unused t"
  unfolding run_ops_def
  by (induction ops arbitrary: t) (auto simp: step_def split: sum.splits dest: apply_op_unused)

lemma todo_init_unused: "todo_init ev a = Inr t \<Longrightarrow> unused t = []"
proof -
  assume "todo_init ev a = Inr t"
  then obtain s s' where s: "init_attributes ev a = Inr s"
    and s': "init_times a s = Inr s'" and t: "t = init_alarms a s'"
    by (auto simp: todo_init_def ebind_eq_Inr)
  from s' have "unused s' = unused s"
    by (auto simp: init_times_def split: if_splits
        dest!: set_due_cases set_duration_cases)
  with init_attributes_priv [OF s] t show ?thesis by simp
qed

lemma run_extractors_claimed:
  "run_extractors ev exs (t, c) = Inr (t', c') \<Longrightarrow> ex \<in> set exs \<Longrightarrow>
     \<not> has_line (ex_type ex) c'"
proof (induction exs arbitrary: t c)
  case Nil
  then show ?case by simp
next
  case (Cons x exs)
  from Cons.prems(1) obtain t1 c1 where r: "run_extractor ev x (t, c) = Inr (t1, c1)"
    and rest: "run_extractors ev exs (t1, c1) = Inr (t', c')"
    by (auto simp: ebind_eq_Inr)
  show ?case
  proof (cases "ex = x")
    case True
    from run_extractor_result [OF r] have "c1 = drop_lines c (ex_type x)" by simp
    then have "\<not> has_line (ex_type x) c1" by (auto simp: has_line_def drop_lines_def)
    with True rest show ?thesis by (auto dest: run_extractors_has_line)
  next
    case False
    with Cons.prems(2) have "ex \<in> set exs" by simp
    from Cons.IH [OF rest this] show ?thesis .
  qed
qed

lemma populate_unused:
  "populate ev c = Inr t \<Longrightarrow> \<not> has_line ''DUE'' (unused t) \<and> \<not> has_line ''DURATION'' (unused t)"
proof -
  assume "populate ev c = Inr t"
  then obtain t0 t1 c1 where r: "run_extractors ev EXTRACTORS (t0, c) = Inr (t1, c1)"
    and t: "t = t1\<lparr>unused := c1\<rparr>"
    by (auto simp: populate_def ebind_eq_Inr)
  have "\<lparr>ex_type = ''DUE'', ex_required = False, ex_function = Single due_extractor\<rparr>
      \<in> set EXTRACTORS"
    by (simp add: EXTRACTORS_def)
  from run_extractors_claimed [OF r this] have 1: "\<not> has_line ''DUE'' c1" by simp
  have "\<lparr>ex_type = ''DURATION'', ex_required = False, ex_function = Single duration_extractor\<rparr>
      \<in> set EXTRACTORS"
    by (simp add: EXTRACTORS_def)
  from run_extractors_claimed [OF r this] have 2: "\<not> has_line ''DURATION'' c1" by simp
  from 1 2 t show ?thesis by simp
qed

lemma reachable_unused:
  "todo_init ev a = Inr t0 \<or> populate ev c = Inr t0 \<Longrightarrow>
     \<not> has_line ''DUE'' (unused (run_ops ev t0 ops)) \<and>
     \<not> has_line ''DURATION'' (unused (run_ops ev t0 ops))"
  by (auto simp: run_ops_unused dest: todo_init_unused populate_unused)

lemma blank_todo_fields:
  "priv_begin blank_todo = None" "priv_due_time blank_todo = None"
  "priv_duration blank_todo = None" "unused blank_todo = []" "name blank_todo = None"
  by (simp_all add: blank_todo_def)

lemma test_env_codecs:
  "arrow_to_iso test_env x = ''T''" "timedelta_to_duration test_env d = ''P''"
  by (simp_all add: test_env_def)

section \<open>The claims\<close>

subsection \<open>C1: due time and duration exclude each other\<close>




subsection \<open>C2: \<open>due_within\<close>\<close>

text \<open>
  Claim C2, evaluated where the code departs from it. The guard of \<open>due_within\<close> tests
  \<open>self.begin\<close>, although the comment above it speaks of "a due". An entry with due 15
  and no begin (reached by \<open>Todo(begin=10, due=15)\<close> and \<open>begin = None\<close>) is reported as
  not ending within the window from 10 to 20; an entry with begin 12 and no due makes
  the comparison \<open>other.begin <= None\<close> raise instead of returning \<open>False\<close>.
\<close>

theorem due_within_tests_begin:
  "set_begin (blank_todo\<lparr>priv_begin := Some 10, priv_due_time := Some 15\<rparr>) None
     = Inr (blank_todo\<lparr>priv_begin := None, priv_due_time := Some 15\<rparr>)
   \<and> get_due (blank_todo\<lparr>priv_begin := None, priv_due_time := Some 15\<rparr>) = Inr (Some 15)
   \<and> get_begin (blank_todo\<lparr>priv_begin := Some 10, priv_due_time := Some 20\<rparr>) = Some 10
   \<and> get_due (blank_todo\<lparr>priv_begin := Some 10, priv_due_time := Some 20\<rparr>) = Inr (Some 20)
   \<and> due_within (blank_todo\<lparr>priv_begin := None, priv_due_time := Some 15\<rparr>)
        (TodoObj (blank_todo\<lparr>priv_begin := Some 10, priv_due_time := Some 20\<rparr>)) = Inr False
   \<and> get_due (blank_todo\<lparr>priv_begin := Some 12\<rparr>) = Inr None
   \<and> due_within (blank_todo\<lparr>priv_begin := Some 12\<rparr>)
        (TodoObj (blank_todo\<lparr>priv_begin := Some 10, priv_due_time := Some 20\<rparr>)) = Inl TypeError"
  by (simp add: set_begin_def get_due_def get_begin_def due_within_def
       blank_todo_def)

subsection \<open>C3: the setter of \<open>begin\<close>\<close>

text \<open>
  Claim C3. Setting \<open>begin\<close> to \<open>v\<close> fails with the error of the setter (\<open>ValueError\<close>,
  the spec's \<open>InvalidState\<close>) iff the coerced \<open>v\<close> is present, the stored \<open>_due_time\<close> is
  present and \<open>v\<close> is strictly greater than it; a stored duration plays no part in the
  test. In every other case the call succeeds, the stored begin becomes the coerced
  \<open>v\<close> and no other field changes.
\<close>

theorem set_begin_invalid_state:
  "(set_begin t v = Inl (ValueError ''Begin must be before due time'')
      \<longleftrightarrow> (\<exists>b d. get_arrow v = Some b \<and> priv_due_time t = Some d \<and> d < b))
   \<and> (set_begin t v \<noteq> Inl (ValueError ''Begin must be before due time'')
      \<longrightarrow> set_begin t v = Inr (t\<lparr>priv_begin := get_arrow v\<rparr>))"
  by (auto simp: set_begin_def Let_def split: option.splits)

theorem set_begin_invalid_state_witness:
  "set_begin (blank_todo\<lparr>priv_due_time := Some 20\<rparr>) (Some (ArrowArg 21))
     = Inl (ValueError ''Begin must be before due time'')
   \<and> set_begin (blank_todo\<lparr>priv_due_time := Some 20\<rparr>) (Some (ArrowArg 20))
     = Inr (blank_todo\<lparr>priv_due_time := Some 20, priv_begin := Some 20\<rparr>)
   \<and> set_begin (blank_todo\<lparr>priv_begin := Some 1, priv_duration := Some 5\<rparr>) (Some (ArrowArg 99))
     = Inr (blank_todo\<lparr>priv_begin := Some 99, priv_duration := Some 5\<rparr>)"
  using set_begin_invalid_state [of "blank_todo\<lparr>priv_due_time := Some 20\<rparr>" "Some (ArrowArg 21)"]
    set_begin_invalid_state [of "blank_todo\<lparr>priv_due_time := Some 20\<rparr>" "Some (ArrowArg 20)"]
    set_begin_invalid_state
      [of "blank_todo\<lparr>priv_begin := Some 1, priv_duration := Some 5\<rparr>" "Some (ArrowArg 99)"]
  by (simp add: blank_todo_def)

subsection \<open>C4: construction with begin and due, and a due before begin\<close>

text \<open>
  Claim C4. For instants \<open>b \<le> d\<close>, the constructor called with \<open>begin = b\<close> and
  \<open>due = d\<close> (and no duration that counts as given) returns an entry whose \<open>begin\<close> reads
  \<open>b\<close> and whose \<open>due\<close> reads \<open>d\<close>; and on an entry whose begin is \<open>b\<close>, setting \<open>due\<close> to
  an instant strictly less than \<open>b\<close> fails with \<open>ValueError\<close> (the spec's
  \<open>InvalidState\<close>).
\<close>

theorem begin_due_roundtrip:
  "(arg_begin a = Some (ArrowArg b) \<and> arg_due a = Some (ArrowArg d)
       \<and> \<not> truthy_arg (arg_duration a) \<and> b \<le> d
      \<longrightarrow> (\<exists>t. todo_init ev a = Inr t \<and> get_begin t = Some b \<and> get_due t = Inr (Some d)))
   \<and> (priv_begin t = Some b \<and> v < b
      \<longrightarrow> set_due t (Some (ArrowArg v)) = Inl (ValueError ''Due must be after begin''))"
proof (intro conjI impI)
  assume h: "arg_begin a = Some (ArrowArg b) \<and> arg_due a = Some (ArrowArg d)
       \<and> \<not> truthy_arg (arg_duration a) \<and> b \<le> d"
  from init_attributes_begin [of ev a] obtain s where s: "init_attributes ev a = Inr s"
    and sb: "priv_begin s = get_arrow (arg_begin a)" by blast
  from h sb have "init_times a s = Inr (s\<lparr>priv_due_time := Some d, priv_duration := None\<rparr>)"
    by (simp add: init_times_def set_due_def)
  with s have "todo_init ev a
      = Inr (init_alarms a (s\<lparr>priv_due_time := Some d, priv_duration := None\<rparr>))"
    by (simp add: todo_init_def)
  moreover from h sb
  have "get_begin (init_alarms a (s\<lparr>priv_due_time := Some d, priv_duration := None\<rparr>)) = Some b"
    by (simp add: get_begin_def)
  moreover
  have "get_due (init_alarms a (s\<lparr>priv_due_time := Some d, priv_duration := None\<rparr>))
      = Inr (Some d)"
    by (simp add: get_due_def)
  ultimately show "\<exists>t. todo_init ev a = Inr t \<and> get_begin t = Some b \<and> get_due t = Inr (Some d)"
    by blast
next
  assume "priv_begin t = Some b \<and> v < b"
  then show "set_due t (Some (ArrowArg v)) = Inl (ValueError ''Due must be after begin'')"
    by (simp add: set_due_def)
qed

theorem begin_due_roundtrip_witness:
  "(\<exists>t. todo_init test_env (no_args\<lparr>arg_begin := Some (ArrowArg 10), arg_due := Some (ArrowArg 20)\<rparr>) = Inr t
        \<and> get_begin t = Some 10 \<and> get_due t = Inr (Some 20))
   \<and> set_due (blank_todo\<lparr>priv_begin := Some 10\<rparr>) (Some (ArrowArg 9))
        = Inl (ValueError ''Due must be after begin'')"
  using begin_due_roundtrip [of "no_args\<lparr>arg_begin := Some (ArrowArg 10), arg_due := Some (ArrowArg 20)\<rparr>" 10 20
      test_env "blank_todo\<lparr>priv_begin := Some 10\<rparr>" 9]
  by (simp add: no_args_def)

subsection \<open>C5: the derived due and the derived duration\<close>

text \<open>
  Claim C5, as stated, at a concrete input: an entry with begin 5 and the stored
  duration zero (set through the setter) has no derived due, where the claim says the
  due is \<open>5 + 0\<close>.
\<close>

theorem derived_due_zero_duration_counterexample:
  "set_duration (blank_todo\<lparr>priv_begin := Some 5\<rparr>) (DurDelta 0)
     = Inr (blank_todo\<lparr>priv_begin := Some 5, priv_duration := Some 0\<rparr>)
   \<and> priv_begin (blank_todo\<lparr>priv_begin := Some 5, priv_duration := Some 0\<rparr>) = Some 5
   \<and> priv_duration (blank_todo\<lparr>priv_begin := Some 5, priv_duration := Some 0\<rparr>) = Some 0
   \<and> get_due (blank_todo\<lparr>priv_begin := Some 5, priv_duration := Some 0\<rparr>) = Inr None"
  by (simp add: set_duration_def get_due_def blank_todo_def)

text \<open>
  Claim C5, amended. For an entry with a begin \<open>b\<close> and a stored duration \<open>d\<close> that is not
  zero, \<open>due\<close> reads \<open>b + d\<close> and \<open>duration\<close> reads \<open>d\<close>, which is \<open>due - begin\<close>; for an
  entry with a begin \<open>b'\<close> whose \<open>due\<close> reads a present \<open>e\<close>, \<open>duration\<close> reads \<open>e - b'\<close>.
  The two getters are functions of the entry and return no new entry, so reading again
  yields the same values.
\<close>

theorem derived_due_and_duration:
  "(priv_begin t = Some b \<and> priv_duration t = Some d \<and> d \<noteq> 0
      \<longrightarrow> get_due t = Inr (Some (b + d)) \<and> get_duration t = Inr (Some d)
          \<and> get_duration t = Inr (Some ((b + d) - b)))
   \<and> (priv_begin s = Some b' \<and> get_due s = Inr (Some e)
      \<longrightarrow> get_duration s = Inr (Some (e - b')))"
proof (intro conjI impI)
  assume h: "priv_begin t = Some b \<and> priv_duration t = Some d \<and> d \<noteq> 0"
  then show "get_due t = Inr (Some (b + d))"
    by (simp add: get_due_def get_begin_def)
  from h show "get_duration t = Inr (Some d)"
    by (simp add: get_duration_def)
  from h show "get_duration t = Inr (Some ((b + d) - b))"
    by (simp add: get_duration_def)
next
  assume h: "priv_begin s = Some b' \<and> get_due s = Inr (Some e)"
  show "get_duration s = Inr (Some (e - b'))"
  proof (cases "truthy_td (priv_duration s)")
    case True
    then obtain d where d: "priv_duration s = Some d" "d \<noteq> 0"
      by (cases "priv_duration s") auto
    with h have "e = b' + d" by (auto simp: get_due_def get_begin_def)
    with d show ?thesis by (simp add: get_duration_def)
  next
    case False
    with h show ?thesis by (simp add: get_duration_def get_begin_def)
  qed
qed

theorem derived_due_and_duration_witness:
  "get_due (blank_todo\<lparr>priv_begin := Some 5, priv_duration := Some 3\<rparr>) = Inr (Some 8)
   \<and> get_duration (blank_todo\<lparr>priv_begin := Some 5, priv_duration := Some 3\<rparr>) = Inr (Some 3)
   \<and> get_due (blank_todo\<lparr>priv_begin := Some 5, priv_due_time := Some 9\<rparr>) = Inr (Some 9)
   \<and> get_duration (blank_todo\<lparr>priv_begin := Some 5, priv_due_time := Some 9\<rparr>) = Inr (Some 4)"
  using derived_due_and_duration
    [where t = "blank_todo\<lparr>priv_begin := Some 5, priv_duration := Some 3\<rparr>"
      and b = 5 and d = 3
      and s = "blank_todo\<lparr>priv_begin := Some 5, priv_due_time := Some 9\<rparr>"
      and b' = 5 and e = 9]
  by (simp add: get_due_def blank_todo_def)

subsection \<open>C6: contradictory arguments of the constructor\<close>

text \<open>
  Claim C6, as stated, at concrete inputs. The constructor tests the truth of its
  arguments, not their presence. Called with \<open>duration = timedelta(0)\<close> and \<open>due = 20\<close>
  it returns an entry; called with \<open>duration = timedelta(0)\<close> and no begin it returns an
  entry; called with a begin, \<open>duration = timedelta(days=1)\<close> and the number \<open>0\<close> as due
  it returns an entry that holds the duration and no due.
\<close>

theorem falsy_arguments_accepted_counterexample:
  "todo_init test_env
     (no_args\<lparr>arg_begin := Some (ArrowArg 10), arg_due := Some (ArrowArg 20),
              arg_duration := DurDelta 0\<rparr>)
     = Inr (blank_todo\<lparr>priv_begin := Some 10, priv_due_time := Some 20\<rparr>)
   \<and> todo_init test_env (no_args\<lparr>arg_duration := DurDelta 0\<rparr>) = Inr blank_todo
   \<and> todo_init test_env
     (no_args\<lparr>arg_begin := Some (ArrowArg 10), arg_due := Some (TimestampArg 0),
              arg_duration := DurDays 1\<rparr>)
     = Inr (blank_todo\<lparr>priv_begin := Some 10, priv_duration := Some 86400000000\<rparr>)"
  by (simp add: todo_init_def init_attributes_def init_times_def init_alarms_def
       no_args_def test_env_def blank_todo_def set_begin_def set_due_def set_duration_def)

text \<open>
  Claim C6, amended. A constructor call whose duration and due arguments are both true
  in a condition fails with \<open>ValueError\<close> (the spec's \<open>InvalidConstruction\<close>); a call
  whose duration argument is true in a condition and whose begin is absent fails with
  \<open>ValueError\<close>, and so does one whose begin is present but false in a condition; no
  entry is returned in any of these cases. A duration is true in a condition when it is
  a span that is not zero, a dictionary that is not empty or a number that is not zero;
  a due or a begin is true in a condition when it is an \<open>Arrow\<close> or a number that is
  not zero.
\<close>

theorem contradictory_arguments_rejected:
  "(truthy_arg (arg_duration a) \<and> truthy_arrow_arg (arg_due a)
      \<longrightarrow> todo_init ev a = Inl (ValueError
            ''Todo() may not specify a duration and due date                at the same time''))
   \<and> (truthy_arg (arg_duration a) \<and> \<not> truthy_arrow_arg (arg_due a)
        \<and> \<not> truthy_arrow_arg (arg_begin a)
      \<longrightarrow> todo_init ev a = Inl (ValueError
            ''Todo() must specify a begin if a duration                    is specified''))
   \<and> (truthy_arg (arg_duration a) \<and> arg_begin a = None
      \<longrightarrow> (\<exists>m. todo_init ev a = Inl (ValueError m)))
   \<and> (truthy_arg (arg_duration a)
        \<and> (truthy_arrow_arg (arg_due a) \<or> \<not> truthy_arrow_arg (arg_begin a))
      \<longrightarrow> (\<exists>m. todo_init ev a = Inl (ValueError m)))"
proof -
  obtain s where s: "init_attributes ev a = Inr s"
    using init_attributes_begin [of ev a] by blast
  show ?thesis
    by (auto simp: todo_init_def s init_times_def)
qed

theorem contradictory_arguments_rejected_witness:
  "todo_init test_env
     (no_args\<lparr>arg_begin := Some (ArrowArg 10), arg_due := Some (ArrowArg 20),
              arg_duration := DurDelta 3\<rparr>)
     = Inl (ValueError
         ''Todo() may not specify a duration and due date                at the same time'')
   \<and> todo_init test_env (no_args\<lparr>arg_due := Some (TimestampArg 5), arg_duration := DurDelta 3\<rparr>)
     = Inl (ValueError
         ''Todo() may not specify a duration and due date                at the same time'')
   \<and> todo_init test_env (no_args\<lparr>arg_duration := DurDays 2\<rparr>)
     = Inl (ValueError
         ''Todo() must specify a begin if a duration                    is specified'')
   \<and> todo_init test_env (no_args\<lparr>arg_begin := Some (TimestampArg 0), arg_duration := DurDays 2\<rparr>)
     = Inl (ValueError
         ''Todo() must specify a begin if a duration                    is specified'')"
  using contradictory_arguments_rejected
    [where a = "no_args\<lparr>arg_begin := Some (ArrowArg 10), arg_due := Some (ArrowArg 20),
              arg_duration := DurDelta 3\<rparr>"
      and ev = test_env]
    contradictory_arguments_rejected
    [where a = "no_args\<lparr>arg_due := Some (TimestampArg 5), arg_duration := DurDelta 3\<rparr>"
      and ev = test_env]
    contradictory_arguments_rejected
    [where a = "no_args\<lparr>arg_duration := DurDays 2\<rparr>" and ev = test_env]
    contradictory_arguments_rejected
    [where a = "no_args\<lparr>arg_begin := Some (TimestampArg 0), arg_duration := DurDays 2\<rparr>"
      and ev = test_env]
  by (simp add: no_args_def)

subsection \<open>C7: ordering of entries without due\<close>

text \<open>
  Claim C7, evaluated where the code departs from it. For two entries without due and
  without name, \<open><\<close> returns \<open>False\<close> and \<open>\<le>\<close> returns \<open>True\<close>, as the claim says; \<open>>\<close>
  and \<open>\<ge>\<close> compare \<open>self.name\<close> with \<open>other.name\<close> directly and raise \<open>TypeError\<close> as soon
  as one name is \<open>None\<close> (the case the comment in \<open>__gt__\<close> and \<open>__ge__\<close> leaves to be
  handled).
\<close>

theorem ordering_absent_names:
  "get_due blank_todo = Inr None
   \<and> name blank_todo = None
   \<and> todo_lt blank_todo (TodoObj blank_todo) = Inr False
   \<and> todo_le blank_todo (TodoObj blank_todo) = Inr True
   \<and> todo_gt blank_todo (TodoObj blank_todo) = Inl TypeError
   \<and> todo_ge blank_todo (TodoObj blank_todo) = Inl TypeError
   \<and> todo_lt blank_todo (TodoObj (blank_todo\<lparr>name := Some ''a''\<rparr>)) = Inr True
   \<and> todo_gt (blank_todo\<lparr>name := Some ''a''\<rparr>) (TodoObj blank_todo) = Inl TypeError
   \<and> todo_ge (blank_todo\<lparr>name := Some ''a''\<rparr>) (TodoObj blank_todo) = Inl TypeError"
  by (simp add: get_due_def todo_lt_def todo_le_def todo_gt_def todo_ge_def blank_todo_def)

subsection \<open>C8: the lines \<open>DUE\<close> and \<open>DURATION\<close> of the output\<close>

text \<open>
  Claim C8, as stated, at a concrete input: an entry with begin 5 and the stored
  duration zero has both the duration field and begin set, and \<open>o_duration\<close> appends
  nothing.
\<close>

theorem zero_duration_not_written_counterexample:
  "set_duration (blank_todo\<lparr>priv_begin := Some 5\<rparr>) (DurDelta 0)
     = Inr (blank_todo\<lparr>priv_begin := Some 5, priv_duration := Some 0\<rparr>)
   \<and> priv_duration (blank_todo\<lparr>priv_begin := Some 5, priv_duration := Some 0\<rparr>) = Some 0
   \<and> get_begin (blank_todo\<lparr>priv_begin := Some 5, priv_duration := Some 0\<rparr>) = Some 5
   \<and> o_duration test_env (blank_todo\<lparr>priv_begin := Some 5, priv_duration := Some 0\<rparr>) [] = []"
  by (simp add: set_duration_def get_begin_def o_duration_def blank_todo_def)

text \<open>
  Claim C8, amended. \<open>o_due\<close> appends one \<open>DUE\<close> line when \<open>_due_time\<close> is present and
  nothing otherwise (so nothing for a due that is only derived from a duration);
  \<open>o_duration\<close> appends one \<open>DURATION\<close> line when the stored duration is not zero and
  begin is present, and nothing otherwise. The lines the producers append to an empty
  container hold a \<open>DUE\<close> line iff \<open>_due_time\<close> is present, and a \<open>DURATION\<close> line iff
  the stored duration is not zero and begin is present. For every entry that
  construction and the operations can produce, the serialized output does not hold
  both a \<open>DUE\<close> and a \<open>DURATION\<close> line.
\<close>

theorem due_and_duration_lines:
  "(priv_due_time t = Some x
      \<longrightarrow> o_due ev t c = c @ [ContentLine ''DUE'' [] (StrVal (arrow_to_iso ev x))])
   \<and> (priv_due_time t = None \<longrightarrow> o_due ev t c = c)
   \<and> (priv_duration t = Some d \<and> d \<noteq> 0 \<and> get_begin t \<noteq> None
      \<longrightarrow> o_duration ev t c = c @ [ContentLine ''DURATION'' [] (StrVal (timedelta_to_duration ev d))])
   \<and> (\<not> truthy_td (priv_duration t) \<or> get_begin t = None \<longrightarrow> o_duration ev t c = c)
   \<and> (has_line ''DUE'' (run_outputs ev t []) \<longleftrightarrow> priv_due_time t \<noteq> None)
   \<and> (has_line ''DURATION'' (run_outputs ev t [])
        \<longleftrightarrow> truthy_td (priv_duration t) \<and> get_begin t \<noteq> None)
   \<and> ((todo_init ev' a = Inr t0 \<or> populate ev' c0 = Inr t0)
      \<longrightarrow> \<not> (has_line ''DUE'' (serialize ev (run_ops ev' t0 ops))
             \<and> has_line ''DURATION'' (serialize ev (run_ops ev' t0 ops))))"
proof (intro conjI impI)
  assume h: "todo_init ev' a = Inr t0 \<or> populate ev' c0 = Inr t0"
  from reachable_exclusive [OF h, of ops] reachable_unused [OF h, of ops]
  show "\<not> (has_line ''DUE'' (serialize ev (run_ops ev' t0 ops))
             \<and> has_line ''DURATION'' (serialize ev (run_ops ev' t0 ops)))"
    by (auto simp: serialize_def has_line_DUE_outputs has_line_DURATION_outputs exclusive_def)
qed (auto simp: o_due_def o_duration_def has_line_DUE_outputs has_line_DURATION_outputs
      get_begin_def split: option.splits)

theorem due_and_duration_lines_witness:
  "o_due test_env (blank_todo\<lparr>priv_begin := Some 10, priv_due_time := Some 20\<rparr>) []
     = [ContentLine ''DUE'' [] (StrVal ''T'')]
   \<and> o_duration test_env (blank_todo\<lparr>priv_begin := Some 10, priv_due_time := Some 20\<rparr>) [] = []
   \<and> o_due test_env (blank_todo\<lparr>priv_begin := Some 5, priv_duration := Some 3\<rparr>) [] = []
   \<and> o_duration test_env (blank_todo\<lparr>priv_begin := Some 5, priv_duration := Some 3\<rparr>) []
     = [ContentLine ''DURATION'' [] (StrVal ''P'')]
   \<and> has_line ''DUE''
       (run_outputs test_env (blank_todo\<lparr>priv_begin := Some 10, priv_due_time := Some 20\<rparr>) [])
   \<and> has_line ''DURATION''
       (run_outputs test_env (blank_todo\<lparr>priv_begin := Some 5, priv_duration := Some 3\<rparr>) [])
   \<and> \<not> (has_line ''DUE'' (serialize test_env (run_ops test_env
             (blank_todo\<lparr>priv_begin := Some 10, priv_due_time := Some 20\<rparr>)
             [SetDuration (DurDelta 3)]))
        \<and> has_line ''DURATION'' (serialize test_env (run_ops test_env
             (blank_todo\<lparr>priv_begin := Some 10, priv_due_time := Some 20\<rparr>)
             [SetDuration (DurDelta 3)])))"
  using due_and_duration_lines
    [where t = "blank_todo\<lparr>priv_begin := Some 10, priv_due_time := Some 20\<rparr>"
      and x = 20 and d = 0 and ev = test_env and c = "[]" and ev' = test_env
      and a = "no_args\<lparr>arg_begin := Some (ArrowArg 10), arg_due := Some (ArrowArg 20)\<rparr>"
      and ?t0.0 = "blank_todo\<lparr>priv_begin := Some 10, priv_due_time := Some 20\<rparr>"
      and ?c0.0 = "[]" and ops = "[SetDuration (DurDelta 3)]"]
    due_and_duration_lines
    [where t = "blank_todo\<lparr>priv_begin := Some 5, priv_duration := Some 3\<rparr>"
      and x = 0 and d = 3 and ev = test_env and c = "[]"]
  by (simp add: init_10_20 get_begin_def blank_todo_fields test_env_codecs)

subsection \<open>C9: extraction without a \<open>PERCENT-COMPLETE\<close> or a \<open>PRIORITY\<close> line\<close>

text \<open>
  Claim C9. Extraction from a container with no \<open>PERCENT-COMPLETE\<close> line fails, and so
  does extraction from a container with no \<open>PRIORITY\<close> line: each of the two handlers
  reads \<open>line.value\<close> first, which raises \<open>AttributeError\<close> on \<open>None\<close>, and no entry is
  returned. Neither tag is registered as required.
\<close>

theorem absent_percent_or_priority_line_fails:
  "(\<not> has_line ''PERCENT-COMPLETE'' c \<longrightarrow> (\<exists>e. populate ev c = Inl e))
   \<and> (\<not> has_line ''PRIORITY'' c' \<longrightarrow> (\<exists>e. populate ev c' = Inl e))
   \<and> percent_extractor ev t None = Inl AttributeError
   \<and> priority_extractor ev t None = Inl AttributeError
   \<and> (\<forall>ex \<in> set EXTRACTORS.
         ex_type ex = ''PERCENT-COMPLETE'' \<or> ex_type ex = ''PRIORITY'' \<longrightarrow> \<not> ex_required ex)"
proof (intro conjI impI)
  assume a: "\<not> has_line ''PERCENT-COMPLETE'' c"
  have split: "EXTRACTORS = take 6 EXTRACTORS @ EXTRACTORS ! 6 # drop 7 EXTRACTORS"
    by (simp add: EXTRACTORS_def)
  have "\<exists>e. run_extractors ev (take 6 EXTRACTORS @ EXTRACTORS ! 6 # drop 7 EXTRACTORS) (t0, c) = Inl e"
    for t0
    by (rule run_extractors_fail_at [where f = percent_extractor and e = AttributeError])
       (use a in \<open>simp_all add: EXTRACTORS_def percent_extractor_None\<close>)
  with split have "\<exists>e. run_extractors ev EXTRACTORS (t0, c) = Inl e" for t0 by simp
  then show "\<exists>e. populate ev c = Inl e" by (rule populate_fails_from_extractors)
next
  assume a: "\<not> has_line ''PRIORITY'' c'"
  have split: "EXTRACTORS = take 7 EXTRACTORS @ EXTRACTORS ! 7 # drop 8 EXTRACTORS"
    by (simp add: EXTRACTORS_def)
  have "\<exists>e. run_extractors ev (take 7 EXTRACTORS @ EXTRACTORS ! 7 # drop 8 EXTRACTORS) (t0, c') = Inl e"
    for t0
    by (rule run_extractors_fail_at [where f = priority_extractor and e = AttributeError])
       (use a in \<open>simp_all add: EXTRACTORS_def priority_extractor_None\<close>)
  with split have "\<exists>e. run_extractors ev EXTRACTORS (t0, c') = Inl e" for t0 by simp
  then show "\<exists>e. populate ev c' = Inl e" by (rule populate_fails_from_extractors)
next
  show "percent_extractor ev t None = Inl AttributeError" by (rule percent_extractor_None)
next
  show "priority_extractor ev t None = Inl AttributeError" by (rule priority_extractor_None)
next
  show "\<forall>ex \<in> set EXTRACTORS.
         ex_type ex = ''PERCENT-COMPLETE'' \<or> ex_type ex = ''PRIORITY'' \<longrightarrow> \<not> ex_required ex"
    by (simp add: EXTRACTORS_def)
qed

theorem absent_percent_or_priority_line_fails_witness:
  "\<not> has_line ''PERCENT-COMPLETE''
       [ContentLine ''DTSTAMP'' [] (IntVal 1), ContentLine ''UID'' [] (StrVal ''u1'')]
   \<and> (\<exists>e. populate test_env
       [ContentLine ''DTSTAMP'' [] (IntVal 1), ContentLine ''UID'' [] (StrVal ''u1'')] = Inl e)
   \<and> \<not> has_line ''PRIORITY''
       [ContentLine ''DTSTAMP'' [] (IntVal 1), ContentLine ''UID'' [] (StrVal ''u1''),
        ContentLine ''PERCENT-COMPLETE'' [] (IntVal 50)]
   \<and> (\<exists>e. populate test_env
       [ContentLine ''DTSTAMP'' [] (IntVal 1), ContentLine ''UID'' [] (StrVal ''u1''),
        ContentLine ''PERCENT-COMPLETE'' [] (IntVal 50)] = Inl e)"
  using absent_percent_or_priority_line_fails
    [where c = "[ContentLine ''DTSTAMP'' [] (IntVal 1), ContentLine ''UID'' [] (StrVal ''u1'')]"
      and c' = "[ContentLine ''DTSTAMP'' [] (IntVal 1), ContentLine ''UID'' [] (StrVal ''u1''),
        ContentLine ''PERCENT-COMPLETE'' [] (IntVal 50)]"
      and ev = test_env]
  by (simp add: has_line_def)

subsection \<open>C10: the getter of \<open>duration\<close> on an entry with a due time and no begin\<close>

text \<open>
  Claim C10. For every entry that construction and the operations can produce, if
  \<open>_due_time\<close> is present and begin is absent then reading \<open>duration\<close> raises
  (\<open>TypeError\<close>, from \<open>due - begin\<close> with begin \<open>None\<close>) and does not return \<open>None\<close>. The
  handler of \<open>DUE\<close> produces such an entry from \<open>Todo()\<close>: it stores the decoded instant
  in \<open>_due_time\<close> without looking at begin.
\<close>

theorem duration_getter_partial:
  "((todo_init ev a = Inr t0 \<or> populate ev c = Inr t0) \<and> t = run_ops ev t0 ops
       \<and> priv_due_time t \<noteq> None \<and> priv_begin t = None
      \<longrightarrow> get_duration t = Inl TypeError)
   \<and> (todo_init ev no_args = Inr s \<and> iso_to_arrow ev l = Inr d
      \<longrightarrow> due_extractor ev s (Some l) = Inr (s\<lparr>priv_due_time := Some d\<rparr>)
          \<and> priv_begin (s\<lparr>priv_due_time := Some d\<rparr>) = None
          \<and> get_duration (s\<lparr>priv_due_time := Some d\<rparr>) = Inl TypeError)"
proof (intro conjI impI)
  assume h: "(todo_init ev a = Inr t0 \<or> populate ev c = Inr t0) \<and> t = run_ops ev t0 ops
       \<and> priv_due_time t \<noteq> None \<and> priv_begin t = None"
  then have "todo_init ev a = Inr t0 \<or> populate ev c = Inr t0" by blast
  then have "exclusive (run_ops ev t0 ops)" by (rule reachable_exclusive)
  with h have "exclusive t" "priv_due_time t \<noteq> None" "priv_begin t = None" by auto
  then show "get_duration t = Inl TypeError" by (rule get_duration_no_begin)
next
  assume h: "todo_init ev no_args = Inr s \<and> iso_to_arrow ev l = Inr d"
  then obtain s0 where s0: "init_attributes ev no_args = Inr s0"
    and s: "s = init_alarms no_args s0"
    by (auto simp: todo_init_def ebind_eq_Inr init_times_def no_args_def)
  from init_attributes_priv [OF s0] s
  have p: "priv_begin s = None" "priv_due_time s = None" "priv_duration s = None"
    by (simp_all add: no_args_def)
  from h p show "due_extractor ev s (Some l) = Inr (s\<lparr>priv_due_time := Some d\<rparr>)"
    by (simp add: due_extractor_def)
  from p show "priv_begin (s\<lparr>priv_due_time := Some d\<rparr>) = None" by simp
  from p show "get_duration (s\<lparr>priv_due_time := Some d\<rparr>) = Inl TypeError"
    by (simp add: get_duration_def get_due_def get_begin_def)
qed

theorem duration_getter_partial_witness:
  "todo_init test_env no_args = Inr blank_todo
   \<and> run_ops test_env blank_todo [ExtractDue (Some (ContentLine ''DUE'' [] (IntVal 20)))]
       = blank_todo\<lparr>priv_due_time := Some 20\<rparr>
   \<and> due_extractor test_env blank_todo (Some (ContentLine ''DUE'' [] (IntVal 20)))
       = Inr (blank_todo\<lparr>priv_due_time := Some 20\<rparr>)
   \<and> get_duration (blank_todo\<lparr>priv_due_time := Some 20\<rparr>) = Inl TypeError"
proof -
  have run: "run_ops test_env blank_todo [ExtractDue (Some (ContentLine ''DUE'' [] (IntVal 20)))]
       = blank_todo\<lparr>priv_due_time := Some 20\<rparr>"
    by (simp add: run_ops_def step_def due_extractor_def test_env_def blank_todo_def)
  have iso: "iso_to_arrow test_env (ContentLine ''DUE'' [] (IntVal 20)) = Inr 20"
    by (simp add: test_env_def)
  have blank: "priv_begin blank_todo = None"
    by (simp add: blank_todo_def)
  show ?thesis
    using duration_getter_partial
      [where ev = test_env and a = no_args and ?t0.0 = blank_todo and c = "[]"
        and ops = "[ExtractDue (Some (ContentLine ''DUE'' [] (IntVal 20)))]"
        and t = "blank_todo\<lparr>priv_due_time := Some 20\<rparr>"
        and s = blank_todo and l = "ContentLine ''DUE'' [] (IntVal 20)" and d = 20]
    by (simp add: init_blank run iso blank)
qed

end
